theory Spec2Isabelle
  imports Main "HOL-Library.Word" "HOL-Library.AList"
begin

section \<open>JSON values\<close>

text \<open>
  The library stores every value of a JSON document in a \<^verbatim>\<open>boost::json::value\<close>. Its kinds
  are the constructors below; the discriminators and selectors carry the names of the
  library's accessors. A JSON integer is held in a 64-bit machine integer, signed
  (\<^verbatim>\<open>int64\<close>) or unsigned (\<^verbatim>\<open>uint64\<close>); a floating-point number is represented by its IEEE-754
  bit pattern. An object is an association list in insertion order whose keys are looked
  up with \<open>map_of\<close>; storing under a key is \<open>AList.update\<close>.
\<close>

datatype json =
    is_null: JNull
  | is_bool: JBool (as_bool: bool)
  | is_int64: JInt64 (as_int64: "64 word")
  | is_uint64: JUInt64 (as_uint64: "64 word")
  | is_double: JDouble (as_double: "64 word")
  | is_string: JString (as_string: string)
  | is_array: JArray (as_array: "json list")
  | is_object: JObject (as_object: "(string \<times> json) list")

definition is_number :: "json \<Rightarrow> bool" where
  "is_number jv \<longleftrightarrow> is_int64 jv \<or> is_uint64 jv \<or> is_double jv"

definition contains :: "(string \<times> json) list \<Rightarrow> string \<Rightarrow> bool" where
  "contains obj key \<longleftrightarrow> map_of obj key \<noteq> None"

text \<open>\<open>at\<close> is only ever called behind a \<open>contains\<close> check of the same key.\<close>

definition at :: "(string \<times> json) list \<Rightarrow> string \<Rightarrow> json" where
  "at obj key = the (map_of obj key)"

text \<open>
  \<^verbatim>\<open>std::string(s.c_str())\<close> copies a JSON string through a C string: the copy ends in front
  of the first NUL byte.
\<close>

definition c_str :: "string \<Rightarrow> string" where
  "c_str s = takeWhile (\<lambda>c. c \<noteq> CHR 0x00) s"

section \<open>Errors\<close>

text \<open>
  \<^verbatim>\<open>ErrorCode\<close> is an enumeration over \<^verbatim>\<open>int\<close>; any 32-bit value can be cast to it, so the
  code of an error is a 32-bit word read as two's complement.
\<close>

type_synonym ErrorCode = "32 word"

definition ParseError :: ErrorCode where "ParseError = - 32700"
definition InvalidRequest :: ErrorCode where "InvalidRequest = - 32600"
definition MethodNotFound :: ErrorCode where "MethodNotFound = - 32601"
definition InvalidParams :: ErrorCode where "InvalidParams = - 32602"
definition InternalError :: ErrorCode where "InternalError = - 32603"
definition ServerError :: ErrorCode where "ServerError = - 32000"

record Error =
  err_code :: ErrorCode
  err_message :: string
  err_data :: json

definition Error2 :: "ErrorCode \<Rightarrow> string \<Rightarrow> Error" where
  "Error2 c m = \<lparr>err_code = c, err_message = m, err_data = JNull\<rparr>"

definition Error3 :: "ErrorCode \<Rightarrow> string \<Rightarrow> json \<Rightarrow> Error" where
  "Error3 c m d = \<lparr>err_code = c, err_message = m, err_data = d\<rparr>"

text \<open>The messages of the source are UTF-8 byte strings; the comment gives their meaning.\<close>

definition msg_request_not_object :: string where \<comment> \<open>the request must be a JSON object\<close>
  "msg_request_not_object =
     [CHR 0xE8, CHR 0xAF, CHR 0xB7, CHR 0xE6, CHR 0xB1, CHR 0x82, CHR 0xE5, CHR 0xBF,
     CHR 0x85, CHR 0xE9, CHR 0xA1, CHR 0xBB, CHR 0xE6, CHR 0x98,
     CHR 0xAF] @ '' JSON '' @ [CHR 0xE5, CHR 0xAF, CHR 0xB9, CHR 0xE8, CHR 0xB1, CHR 0xA1]"

definition msg_bad_version :: string where \<comment> \<open>missing or invalid jsonrpc version field\<close>
  "msg_bad_version =
     [CHR 0xE7, CHR 0xBC, CHR 0xBA, CHR 0xE5, CHR 0xB0, CHR 0x91, CHR 0xE6, CHR 0x88,
     CHR 0x96, CHR 0xE6, CHR 0x97, CHR 0xA0, CHR 0xE6, CHR 0x95, CHR 0x88, CHR 0xE7,
     CHR 0x9A, CHR 0x84] @ '' jsonrpc '' @ [CHR 0xE7, CHR 0x89, CHR 0x88, CHR 0xE6,
     CHR 0x9C, CHR 0xAC, CHR 0xE5, CHR 0xAD, CHR 0x97, CHR 0xE6, CHR 0xAE, CHR 0xB5]"

definition msg_bad_method :: string where \<comment> \<open>missing or invalid method field\<close>
  "msg_bad_method =
     [CHR 0xE7, CHR 0xBC, CHR 0xBA, CHR 0xE5, CHR 0xB0, CHR 0x91, CHR 0xE6, CHR 0x88,
     CHR 0x96, CHR 0xE6, CHR 0x97, CHR 0xA0, CHR 0xE6, CHR 0x95, CHR 0x88, CHR 0xE7,
     CHR 0x9A, CHR 0x84] @ '' method '' @ [CHR 0xE5, CHR 0xAD, CHR 0x97, CHR 0xE6, CHR 0xAE,
     CHR 0xB5]"

definition msg_bad_params :: string where \<comment> \<open>params must be array or object\<close>
  "msg_bad_params =
     ''params '' @ [CHR 0xE5, CHR 0xBF, CHR 0x85, CHR 0xE9, CHR 0xA1, CHR 0xBB, CHR 0xE6,
     CHR 0x98, CHR 0xAF] @ '' array '' @ [CHR 0xE6, CHR 0x88, CHR 0x96] @ '' object''"

definition msg_bad_id :: string where \<comment> \<open>id must be string, number or null\<close>
  "msg_bad_id =
     ''id '' @ [CHR 0xE5, CHR 0xBF, CHR 0x85, CHR 0xE9, CHR 0xA1, CHR 0xBB, CHR 0xE6,
     CHR 0x98, CHR 0xAF] @ '' string'' @ [CHR 0xE3, CHR 0x80,
     CHR 0x81] @ ''number '' @ [CHR 0xE6, CHR 0x88, CHR 0x96] @ '' null''"

definition msg_response_not_object :: string where \<comment> \<open>the response must be a JSON object\<close>
  "msg_response_not_object =
     [CHR 0xE5, CHR 0x93, CHR 0x8D, CHR 0xE5, CHR 0xBA, CHR 0x94, CHR 0xE5, CHR 0xBF,
     CHR 0x85, CHR 0xE9, CHR 0xA1, CHR 0xBB, CHR 0xE6, CHR 0x98,
     CHR 0xAF] @ '' JSON '' @ [CHR 0xE5, CHR 0xAF, CHR 0xB9, CHR 0xE8, CHR 0xB1, CHR 0xA1]"

definition msg_missing_id :: string where \<comment> \<open>missing id field\<close>
  "msg_missing_id =
     [CHR 0xE7, CHR 0xBC, CHR 0xBA, CHR 0xE5, CHR 0xB0, CHR 0x91] @ '' id '' @ [CHR 0xE5,
     CHR 0xAD, CHR 0x97, CHR 0xE6, CHR 0xAE, CHR 0xB5]"

definition msg_result_and_error :: string where \<comment> \<open>a response cannot contain both result and error\<close>
  "msg_result_and_error =
     [CHR 0xE5, CHR 0x93, CHR 0x8D, CHR 0xE5, CHR 0xBA, CHR 0x94, CHR 0xE4, CHR 0xB8,
     CHR 0x8D, CHR 0xE8, CHR 0x83, CHR 0xBD, CHR 0xE5, CHR 0x90, CHR 0x8C, CHR 0xE6,
     CHR 0x97, CHR 0xB6, CHR 0xE5, CHR 0x8C, CHR 0x85, CHR 0xE5, CHR 0x90,
     CHR 0xAB] @ '' result '' @ [CHR 0xE5, CHR 0x92, CHR 0x8C] @ '' error''"

definition msg_no_result_no_error :: string where \<comment> \<open>a response must contain result or error\<close>
  "msg_no_result_no_error =
     [CHR 0xE5, CHR 0x93, CHR 0x8D, CHR 0xE5, CHR 0xBA, CHR 0x94, CHR 0xE5, CHR 0xBF,
     CHR 0x85, CHR 0xE9, CHR 0xA1, CHR 0xBB, CHR 0xE5, CHR 0x8C, CHR 0x85, CHR 0xE5,
     CHR 0x90, CHR 0xAB] @ '' result '' @ [CHR 0xE6, CHR 0x88, CHR 0x96] @ '' error''"

definition msg_error_not_object :: string where \<comment> \<open>error must be an object\<close>
  "msg_error_not_object =
     ''error '' @ [CHR 0xE5, CHR 0xBF, CHR 0x85, CHR 0xE9, CHR 0xA1, CHR 0xBB, CHR 0xE6,
     CHR 0x98, CHR 0xAF, CHR 0xE5, CHR 0xAF, CHR 0xB9, CHR 0xE8, CHR 0xB1, CHR 0xA1]"

definition msg_bad_error_code :: string where \<comment> \<open>error.code missing or invalid\<close>
  "msg_bad_error_code =
     ''error.code '' @ [CHR 0xE7, CHR 0xBC, CHR 0xBA, CHR 0xE5, CHR 0xA4, CHR 0xB1,
     CHR 0xE6, CHR 0x88, CHR 0x96, CHR 0xE6, CHR 0x97, CHR 0xA0, CHR 0xE6, CHR 0x95,
     CHR 0x88]"

definition msg_bad_error_message :: string where \<comment> \<open>error.message missing or invalid\<close>
  "msg_bad_error_message =
     ''error.message '' @ [CHR 0xE7, CHR 0xBC, CHR 0xBA, CHR 0xE5, CHR 0xA4, CHR 0xB1,
     CHR 0xE6, CHR 0x88, CHR 0x96, CHR 0xE6, CHR 0x97, CHR 0xA0, CHR 0xE6, CHR 0x95,
     CHR 0x88]"

definition msg_json_parse_failed :: string where \<comment> \<open>JSON parsing failed: (prefix)\<close>
  "msg_json_parse_failed =
     ''JSON '' @ [CHR 0xE8, CHR 0xA7, CHR 0xA3, CHR 0xE6, CHR 0x9E, CHR 0x90, CHR 0xE5,
     CHR 0xA4, CHR 0xB1, CHR 0xE8, CHR 0xB4, CHR 0xA5] @ '': ''"

definition msg_empty_batch :: string where \<comment> \<open>a batch request cannot be empty\<close>
  "msg_empty_batch =
     [CHR 0xE6, CHR 0x89, CHR 0xB9, CHR 0xE9, CHR 0x87, CHR 0x8F, CHR 0xE8, CHR 0xAF,
     CHR 0xB7, CHR 0xE6, CHR 0xB1, CHR 0x82, CHR 0xE4, CHR 0xB8, CHR 0x8D, CHR 0xE8,
     CHR 0x83, CHR 0xBD, CHR 0xE4, CHR 0xB8, CHR 0xBA, CHR 0xE7, CHR 0xA9, CHR 0xBA]"

definition msg_batch_not_array :: string where \<comment> \<open>a batch response must be a JSON array\<close>
  "msg_batch_not_array =
     [CHR 0xE6, CHR 0x89, CHR 0xB9, CHR 0xE9, CHR 0x87, CHR 0x8F, CHR 0xE5, CHR 0x93,
     CHR 0x8D, CHR 0xE5, CHR 0xBA, CHR 0x94, CHR 0xE5, CHR 0xBF, CHR 0x85, CHR 0xE9,
     CHR 0xA1, CHR 0xBB, CHR 0xE6, CHR 0x98, CHR 0xAF] @ '' JSON '' @ [CHR 0xE6, CHR 0x95,
     CHR 0xB0, CHR 0xE7, CHR 0xBB, CHR 0x84]"

definition msg_batch_elem_not_object :: string where \<comment> \<open>the elements of the response array must be objects\<close>
  "msg_batch_elem_not_object =
     [CHR 0xE5, CHR 0x93, CHR 0x8D, CHR 0xE5, CHR 0xBA, CHR 0x94, CHR 0xE6, CHR 0x95,
     CHR 0xB0, CHR 0xE7, CHR 0xBB, CHR 0x84, CHR 0xE4, CHR 0xB8, CHR 0xAD, CHR 0xE7,
     CHR 0x9A, CHR 0x84, CHR 0xE5, CHR 0x85, CHR 0x83, CHR 0xE7, CHR 0xB4, CHR 0xA0,
     CHR 0xE5, CHR 0xBF, CHR 0x85, CHR 0xE9, CHR 0xA1, CHR 0xBB, CHR 0xE6, CHR 0x98,
     CHR 0xAF, CHR 0xE5, CHR 0xAF, CHR 0xB9, CHR 0xE8, CHR 0xB1, CHR 0xA1]"

definition msg_method_not_found :: string where \<comment> \<open>method does not exist: (prefix)\<close>
  "msg_method_not_found =
     [CHR 0xE6, CHR 0x96, CHR 0xB9, CHR 0xE6, CHR 0xB3, CHR 0x95, CHR 0xE4, CHR 0xB8,
     CHR 0x8D, CHR 0xE5, CHR 0xAD, CHR 0x98, CHR 0xE5, CHR 0x9C, CHR 0xA8] @ '': ''"

definition msg_internal_error :: string where \<comment> \<open>internal error: (prefix)\<close>
  "msg_internal_error =
     [CHR 0xE5, CHR 0x86, CHR 0x85, CHR 0xE9, CHR 0x83, CHR 0xA8, CHR 0xE9, CHR 0x94,
     CHR 0x99, CHR 0xE8, CHR 0xAF, CHR 0xAF] @ '': ''"

definition msg_batch_failed :: string where \<comment> \<open>batch call failed\<close>
  "msg_batch_failed =
     [CHR 0xE6, CHR 0x89, CHR 0xB9, CHR 0xE9, CHR 0x87, CHR 0x8F, CHR 0xE8, CHR 0xB0,
     CHR 0x83, CHR 0xE7, CHR 0x94, CHR 0xA8, CHR 0xE5, CHR 0xA4, CHR 0xB1, CHR 0xE8,
     CHR 0xB4, CHR 0xA5]"

definition msg_method_failed :: string where \<comment> \<open>method execution failed: (prefix)\<close>
  "msg_method_failed =
     [CHR 0xE6, CHR 0x96, CHR 0xB9, CHR 0xE6, CHR 0xB3, CHR 0x95, CHR 0xE6, CHR 0x89,
     CHR 0xA7, CHR 0xE8, CHR 0xA1, CHR 0x8C, CHR 0xE5, CHR 0xA4, CHR 0xB1, CHR 0xE8,
     CHR 0xB4, CHR 0xA5] @ '': ''"

definition msg_expect_int :: string where \<comment> \<open>expected int type\<close>
  "msg_expect_int =
     [CHR 0xE6, CHR 0x9C, CHR 0x9F, CHR 0xE6, CHR 0x9C, CHR 0x9B] @ '' int '' @ [CHR 0xE7,
     CHR 0xB1, CHR 0xBB, CHR 0xE5, CHR 0x9E, CHR 0x8B]"

definition msg_expect_int64 :: string where \<comment> \<open>expected int64 type\<close>
  "msg_expect_int64 =
     [CHR 0xE6, CHR 0x9C, CHR 0x9F, CHR 0xE6, CHR 0x9C, CHR 0x9B] @ '' int64 '' @ [CHR 0xE7,
     CHR 0xB1, CHR 0xBB, CHR 0xE5, CHR 0x9E, CHR 0x8B]"

definition msg_expect_uint64 :: string where \<comment> \<open>expected uint64 type\<close>
  "msg_expect_uint64 =
     [CHR 0xE6, CHR 0x9C, CHR 0x9F, CHR 0xE6, CHR 0x9C,
     CHR 0x9B] @ '' uint64 '' @ [CHR 0xE7, CHR 0xB1, CHR 0xBB, CHR 0xE5, CHR 0x9E, CHR 0x8B]"

definition msg_expect_double :: string where \<comment> \<open>expected double type\<close>
  "msg_expect_double =
     [CHR 0xE6, CHR 0x9C, CHR 0x9F, CHR 0xE6, CHR 0x9C,
     CHR 0x9B] @ '' double '' @ [CHR 0xE7, CHR 0xB1, CHR 0xBB, CHR 0xE5, CHR 0x9E, CHR 0x8B]"

definition msg_expect_bool :: string where \<comment> \<open>expected bool type\<close>
  "msg_expect_bool =
     [CHR 0xE6, CHR 0x9C, CHR 0x9F, CHR 0xE6, CHR 0x9C, CHR 0x9B] @ '' bool '' @ [CHR 0xE7,
     CHR 0xB1, CHR 0xBB, CHR 0xE5, CHR 0x9E, CHR 0x8B]"

definition msg_expect_string :: string where \<comment> \<open>expected string type\<close>
  "msg_expect_string =
     [CHR 0xE6, CHR 0x9C, CHR 0x9F, CHR 0xE6, CHR 0x9C,
     CHR 0x9B] @ '' string '' @ [CHR 0xE7, CHR 0xB1, CHR 0xBB, CHR 0xE5, CHR 0x9E, CHR 0x8B]"

definition msg_expect_array :: string where \<comment> \<open>expected array type\<close>
  "msg_expect_array =
     [CHR 0xE6, CHR 0x9C, CHR 0x9F, CHR 0xE6, CHR 0x9C, CHR 0x9B] @ '' array '' @ [CHR 0xE7,
     CHR 0xB1, CHR 0xBB, CHR 0xE5, CHR 0x9E, CHR 0x8B]"

definition msg_expect_object :: string where \<comment> \<open>expected object type\<close>
  "msg_expect_object =
     [CHR 0xE6, CHR 0x9C, CHR 0x9F, CHR 0xE6, CHR 0x9C,
     CHR 0x9B] @ '' object '' @ [CHR 0xE7, CHR 0xB1, CHR 0xBB, CHR 0xE5, CHR 0x9E, CHR 0x8B]"

definition msg_arity_1 :: string where \<comment> \<open>parameter count mismatch: expected (first part)\<close>
  "msg_arity_1 =
     [CHR 0xE5, CHR 0x8F, CHR 0x82, CHR 0xE6, CHR 0x95, CHR 0xB0, CHR 0xE6, CHR 0x95,
     CHR 0xB0, CHR 0xE9, CHR 0x87, CHR 0x8F, CHR 0xE4, CHR 0xB8, CHR 0x8D, CHR 0xE5,
     CHR 0x8C, CHR 0xB9, CHR 0xE9, CHR 0x85, CHR 0x8D, CHR 0xEF, CHR 0xBC, CHR 0x9A,
     CHR 0xE6, CHR 0x9C, CHR 0x9F, CHR 0xE6, CHR 0x9C, CHR 0x9B] @ '' ''"

definition msg_arity_2 :: string where \<comment> \<open>(middle part), got\<close>
  "msg_arity_2 =
     '' '' @ [CHR 0xE4, CHR 0xB8, CHR 0xAA, CHR 0xEF, CHR 0xBC, CHR 0x8C, CHR 0xE5,
     CHR 0xAE, CHR 0x9E, CHR 0xE9, CHR 0x99, CHR 0x85] @ '' ''"

definition msg_arity_3 :: string where \<comment> \<open>(final part, a counter word)\<close>
  "msg_arity_3 =
     '' '' @ [CHR 0xE4, CHR 0xB8, CHR 0xAA]"

definition msg_params_not_array :: string where \<comment> \<open>params must be array\<close>
  "msg_params_not_array =
     ''params '' @ [CHR 0xE5, CHR 0xBF, CHR 0x85, CHR 0xE9, CHR 0xA1, CHR 0xBB, CHR 0xE6,
     CHR 0x98, CHR 0xAF] @ '' array''"

definition msg_params_not_null_or_array :: string where \<comment> \<open>params must be null or array\<close>
  "msg_params_not_null_or_array =
     ''params '' @ [CHR 0xE5, CHR 0xBF, CHR 0x85, CHR 0xE9, CHR 0xA1, CHR 0xBB, CHR 0xE6,
     CHR 0x98, CHR 0xAF] @ '' null '' @ [CHR 0xE6, CHR 0x88, CHR 0x96] @ '' array''"

definition msg_expect_no_params :: string where \<comment> \<open>expected no parameters, but parameters were given\<close>
  "msg_expect_no_params =
     [CHR 0xE6, CHR 0x9C, CHR 0x9F, CHR 0xE6, CHR 0x9C, CHR 0x9B, CHR 0xE6, CHR 0x97,
     CHR 0xA0, CHR 0xE5, CHR 0x8F, CHR 0x82, CHR 0xE6, CHR 0x95, CHR 0xB0, CHR 0xEF,
     CHR 0xBC, CHR 0x8C, CHR 0xE4, CHR 0xBD, CHR 0x86, CHR 0xE6, CHR 0x8F, CHR 0x90,
     CHR 0xE4, CHR 0xBE, CHR 0x9B, CHR 0xE4, CHR 0xBA, CHR 0x86, CHR 0xE5, CHR 0x8F,
     CHR 0x82, CHR 0xE6, CHR 0x95, CHR 0xB0]"

definition msg_server_running :: string where \<comment> \<open>the batch thread pool cannot be adjusted while the server is running, stop() first\<close>
  "msg_server_running =
     [CHR 0xE6, CHR 0x9C, CHR 0x8D, CHR 0xE5, CHR 0x8A, CHR 0xA1, CHR 0xE5, CHR 0x99,
     CHR 0xA8, CHR 0xE6, CHR 0xAD, CHR 0xA3, CHR 0xE5, CHR 0x9C, CHR 0xA8, CHR 0xE8,
     CHR 0xBF, CHR 0x90, CHR 0xE8, CHR 0xA1, CHR 0x8C, CHR 0xE6, CHR 0x97, CHR 0xB6,
     CHR 0xE6, CHR 0x97, CHR 0xA0, CHR 0xE6, CHR 0xB3, CHR 0x95, CHR 0xE8, CHR 0xB0,
     CHR 0x83, CHR 0xE6, CHR 0x95, CHR 0xB4, CHR 0xE6, CHR 0x89, CHR 0xB9, CHR 0xE9,
     CHR 0x87, CHR 0x8F, CHR 0xE7, CHR 0xBA, CHR 0xBF, CHR 0xE7, CHR 0xA8, CHR 0x8B,
     CHR 0xE6, CHR 0xB1, CHR 0xA0, CHR 0xEF, CHR 0xBC, CHR 0x8C, CHR 0xE8, CHR 0xAF,
     CHR 0xB7, CHR 0xE5, CHR 0x85, CHR 0x88] @ '' stop()''"

definition msg_not_post :: string where \<comment> \<open>received a non-POST request\<close>
  "msg_not_post =
     [CHR 0xE6, CHR 0x94, CHR 0xB6, CHR 0xE5, CHR 0x88, CHR 0xB0, CHR 0xE9, CHR 0x9D,
     CHR 0x9E] @ '' POST '' @ [CHR 0xE8, CHR 0xAF, CHR 0xB7, CHR 0xE6, CHR 0xB1, CHR 0x82]"

definition msg_only_post :: string where \<comment> \<open>only the POST method is supported\<close>
  "msg_only_post =
     [CHR 0xE4, CHR 0xBB, CHR 0x85, CHR 0xE6, CHR 0x94, CHR 0xAF, CHR 0xE6, CHR 0x8C,
     CHR 0x81] @ '' POST '' @ [CHR 0xE6, CHR 0x96, CHR 0xB9, CHR 0xE6, CHR 0xB3, CHR 0x95]"

definition msg_bad_content_type_log :: string where \<comment> \<open>invalid Content-Type: (prefix)\<close>
  "msg_bad_content_type_log =
     ''Content-Type '' @ [CHR 0xE6, CHR 0x97, CHR 0xA0, CHR 0xE6, CHR 0x95,
     CHR 0x88] @ '': ''"

definition msg_bad_content_type :: string where \<comment> \<open>Content-Type must be application/json\<close>
  "msg_bad_content_type =
     ''Content-Type '' @ [CHR 0xE5, CHR 0xBF, CHR 0x85, CHR 0xE9, CHR 0xA1, CHR 0xBB,
     CHR 0xE6, CHR 0x98, CHR 0xAF] @ '' application/json''"

definition msg_parse_request_failed :: string where \<comment> \<open>parsing the request failed: (prefix)\<close>
  "msg_parse_request_failed =
     [CHR 0xE8, CHR 0xA7, CHR 0xA3, CHR 0xE6, CHR 0x9E, CHR 0x90, CHR 0xE8, CHR 0xAF,
     CHR 0xB7, CHR 0xE6, CHR 0xB1, CHR 0x82, CHR 0xE5, CHR 0xA4, CHR 0xB1, CHR 0xE8,
     CHR 0xB4, CHR 0xA5] @ '': ''"
section \<open>Requests\<close>

record Request =
  req_method :: string
  req_params :: json
  req_id :: json
  req_has_id :: bool

text \<open>The two public constructors: with an id (a request) and without (a notification).\<close>

definition Request3 :: "string \<Rightarrow> json \<Rightarrow> json \<Rightarrow> Request" where
  "Request3 m p i = \<lparr>req_method = m, req_params = p, req_id = i, req_has_id = True\<rparr>"

definition Request2 :: "string \<Rightarrow> json \<Rightarrow> Request" where
  "Request2 m p = \<lparr>req_method = m, req_params = p, req_id = JNull, req_has_id = False\<rparr>"

definition Request_from_json :: "json \<Rightarrow> Error + Request" where
  "Request_from_json jv =
    (if \<not> is_object jv then Inl (Error2 InvalidRequest msg_request_not_object)
     else let obj = as_object jv in
       if \<not> contains obj ''jsonrpc'' \<or> \<not> is_string (at obj ''jsonrpc'') \<or>
          as_string (at obj ''jsonrpc'') \<noteq> ''2.0''
       then Inl (Error2 InvalidRequest msg_bad_version)
       else if \<not> contains obj ''method'' \<or> \<not> is_string (at obj ''method'')
       then Inl (Error2 InvalidRequest msg_bad_method)
       else let m = c_str (as_string (at obj ''method''));
                p = (if contains obj ''params'' then at obj ''params'' else JNull) in
         if contains obj ''params'' \<and> \<not> is_array p \<and> \<not> is_object p \<and> \<not> is_null p
         then Inl (Error2 InvalidRequest msg_bad_params)
         else if contains obj ''id'' then
           (let id_val = at obj ''id'' in
            if \<not> is_string id_val \<and> \<not> is_number id_val \<and> \<not> is_null id_val
            then Inl (Error2 InvalidRequest msg_bad_id)
            else Inr (Request3 m p id_val))
         else Inr (Request2 m p))"

definition Request_to_json :: "Request \<Rightarrow> (string \<times> json) list" where
  "Request_to_json r =
    (let obj = AList.update ''jsonrpc'' (JString ''2.0'') [];
         obj = AList.update ''method'' (JString (req_method r)) obj;
         obj = (if \<not> is_null (req_params r) then AList.update ''params'' (req_params r) obj
                else obj);
         obj = (if req_has_id r then AList.update ''id'' (req_id r) obj else obj)
     in obj)"

section \<open>The protocol engine\<close>

text \<open>
  \<^verbatim>\<open>boost::json::parse\<close> and \<^verbatim>\<open>boost::json::serialize\<close> belong to the JSON library, not
  to this repository; the functions that call them take them as the parameters \<open>parse\<close>
  and \<open>serialize\<close>. \<open>parse s\<close> is \<open>Inr\<close> of the document, or \<open>Inl\<close> of the
  \<^verbatim>\<open>what()\<close> text of the exception the library throws.
\<close>

type_synonym json_parse = "string \<Rightarrow> string + json"
type_synonym json_serialize = "json \<Rightarrow> string"

definition is_batch_request :: "json \<Rightarrow> bool" where
  "is_batch_request jv \<longleftrightarrow> is_array jv"

text \<open>The loop over a batch: the first element that is refused throws, and ends the loop.\<close>

fun requests_from_json :: "json list \<Rightarrow> Error + Request list" where
  "requests_from_json [] = Inr []"
| "requests_from_json (elem # arr) =
     (case Request_from_json elem of
        Inl e \<Rightarrow> Inl e
      | Inr r \<Rightarrow> (case requests_from_json arr of Inl e \<Rightarrow> Inl e | Inr rs \<Rightarrow> Inr (r # rs)))"

definition parse_request :: "json_parse \<Rightarrow> string \<Rightarrow> Error + Request list" where
  "parse_request parse json_str =
    (case parse json_str of
       Inl what \<Rightarrow> Inl (Error2 ParseError (msg_json_parse_failed @ what))
     | Inr jv \<Rightarrow>
         if is_batch_request jv then
           (let arr = as_array jv in
            if arr = [] then Inl (Error2 InvalidRequest msg_empty_batch)
            else requests_from_json arr)
         else (case Request_from_json jv of Inl e \<Rightarrow> Inl e | Inr r \<Rightarrow> Inr [r]))"

section \<open>Responses\<close>

text \<open>
  A response carries the flag \<^verbatim>\<open>is_error_\<close> and both a result and an error; the member that
  the flag does not select holds a placeholder (a null result, or an InternalError with
  an empty message).
\<close>

record Response =
  resp_is_error :: bool
  resp_result :: json
  resp_error :: Error
  resp_id :: json

definition Response_result :: "json \<Rightarrow> json \<Rightarrow> Response" where
  "Response_result r i =
     \<lparr>resp_is_error = False, resp_result = r, resp_error = Error2 InternalError [],
      resp_id = i\<rparr>"

definition Response_error :: "Error \<Rightarrow> json \<Rightarrow> Response" where
  "Response_error e i =
     \<lparr>resp_is_error = True, resp_result = JNull, resp_error = e, resp_id = i\<rparr>"

text \<open>The code is written as a JSON integer: the 32-bit value, sign-extended.\<close>

definition Error_to_json :: "Error \<Rightarrow> (string \<times> json) list" where
  "Error_to_json e =
    (let obj = AList.update ''code'' (JInt64 (scast (err_code e))) [];
         obj = AList.update ''message'' (JString (err_message e)) obj;
         obj = (if \<not> is_null (err_data e) then AList.update ''data'' (err_data e) obj
                else obj)
     in obj)"

definition Response_to_json :: "Response \<Rightarrow> (string \<times> json) list" where
  "Response_to_json r =
    (let obj = AList.update ''jsonrpc'' (JString ''2.0'') [];
         obj = (if resp_is_error r
                then AList.update ''error'' (JObject (Error_to_json (resp_error r))) obj
                else AList.update ''result'' (resp_result r) obj);
         obj = AList.update ''id'' (resp_id r) obj
     in obj)"

text \<open>
  \<open>Response_from_json\<close> builds the error from the local string \<^verbatim>\<open>message\<close> twice: first
  \<^verbatim>\<open>Error error(code, std::move(message))\<close>, whose by-value parameter is move-constructed
  from the local, and then, when the object has a \<^verbatim>\<open>data\<close> member,
  \<^verbatim>\<open>Error(code, message, data)\<close> from the same local. \<open>moved_from s\<close> is what a
  \<^verbatim>\<open>std::string\<close> holds after its content \<open>s\<close> was moved out: the implementations of
  the standard library (libstdc++, libc++, MSVC) leave it empty.
\<close>

definition moved_from :: "string \<Rightarrow> string" where
  "moved_from s = []"

definition Response_from_json :: "json \<Rightarrow> Error + Response" where
  "Response_from_json jv =
    (if \<not> is_object jv then Inl (Error2 InvalidRequest msg_response_not_object)
     else let obj = as_object jv in
       if \<not> contains obj ''jsonrpc'' \<or> \<not> is_string (at obj ''jsonrpc'') \<or>
          as_string (at obj ''jsonrpc'') \<noteq> ''2.0''
       then Inl (Error2 InvalidRequest msg_bad_version)
       else if \<not> contains obj ''id'' then Inl (Error2 InvalidRequest msg_missing_id)
       else let i = at obj ''id'';
                has_result = contains obj ''result'';
                has_error = contains obj ''error'' in
         if has_result \<and> has_error then Inl (Error2 InvalidRequest msg_result_and_error)
         else if \<not> has_result \<and> \<not> has_error
         then Inl (Error2 InvalidRequest msg_no_result_no_error)
         else if has_result then Inr (Response_result (at obj ''result'') i)
         else let error_obj = at obj ''error'' in
           if \<not> is_object error_obj then Inl (Error2 InvalidRequest msg_error_not_object)
           else let err = as_object error_obj in
             if \<not> contains err ''code'' \<or> \<not> is_int64 (at err ''code'')
             then Inl (Error2 InvalidRequest msg_bad_error_code)
             else if \<not> contains err ''message'' \<or> \<not> is_string (at err ''message'')
             then Inl (Error2 InvalidRequest msg_bad_error_message)
             else let c = (ucast (as_int64 (at err ''code'')) :: 32 word);
                      message = c_str (as_string (at err ''message''));
                      error = Error2 c message;
                      message = moved_from message;
                      error = (if contains err ''data''
                               then Error3 c message (at err ''data'') else error)
                  in Inr (Response_error error i))"

definition serialize_response :: "json_serialize \<Rightarrow> Response \<Rightarrow> string" where
  "serialize_response serialize response = serialize (JObject (Response_to_json response))"

definition serialize_batch_response :: "json_serialize \<Rightarrow> Response list \<Rightarrow> string" where
  "serialize_batch_response serialize responses =
     serialize (JArray (map (\<lambda>response. JObject (Response_to_json response)) responses))"

definition serialize_request :: "json_serialize \<Rightarrow> Request \<Rightarrow> string" where
  "serialize_request serialize request = serialize (JObject (Request_to_json request))"

definition serialize_batch_request :: "json_serialize \<Rightarrow> Request list \<Rightarrow> string" where
  "serialize_batch_request serialize requests =
     serialize (JArray (map (\<lambda>request. JObject (Request_to_json request)) requests))"

definition parse_response :: "json_parse \<Rightarrow> string \<Rightarrow> Error + Response" where
  "parse_response parse json_str =
    (case parse json_str of
       Inl what \<Rightarrow> Inl (Error2 ParseError (msg_json_parse_failed @ what))
     | Inr jv \<Rightarrow>
         if \<not> is_object jv then Inl (Error2 InvalidRequest msg_response_not_object)
         else Response_from_json (JObject (as_object jv)))"

fun responses_from_json :: "json list \<Rightarrow> Error + Response list" where
  "responses_from_json [] = Inr []"
| "responses_from_json (elem # arr) =
     (if \<not> is_object elem then Inl (Error2 InvalidRequest msg_batch_elem_not_object)
      else case Response_from_json (JObject (as_object elem)) of
        Inl e \<Rightarrow> Inl e
      | Inr r \<Rightarrow> (case responses_from_json arr of Inl e \<Rightarrow> Inl e | Inr rs \<Rightarrow> Inr (r # rs)))"

definition parse_batch_response :: "json_parse \<Rightarrow> string \<Rightarrow> Error + Response list" where
  "parse_batch_response parse json_str =
    (case parse json_str of
       Inl what \<Rightarrow> Inl (Error2 ParseError (msg_json_parse_failed @ what))
     | Inr jv \<Rightarrow>
         if \<not> is_array jv then Inl (Error2 InvalidRequest msg_batch_not_array)
         else responses_from_json (as_array jv))"

section \<open>The value codec\<close>

text \<open>
  The declared parameter types that \<^verbatim>\<open>json_converter\<close> is specialised for, and the native
  values they decode to. A native \<^verbatim>\<open>int\<close> is a 32-bit word, \<^verbatim>\<open>int64_t\<close> and \<^verbatim>\<open>uint64_t\<close>
  are 64-bit words. A native floating-point value records where it was converted from:
  the bits of a JSON double, or the 64-bit integer handed to \<^verbatim>\<open>static_cast<double>\<close>; a
  \<^verbatim>\<open>float\<close> records the double it was narrowed from. A \<^verbatim>\<open>std::map\<close> is an association list
  with one entry for each key.
\<close>

datatype param_type =
    T_int | T_int64 | T_uint64 | T_double | T_float | T_bool | T_string
  | T_vector param_type
  | T_map param_type

datatype fp_value = Fp_bits "64 word" | Fp_of_int64 "64 word" | Fp_of_uint64 "64 word"

datatype native =
    N_int "32 word"
  | N_int64 "64 word"
  | N_uint64 "64 word"
  | N_double fp_value
  | N_float fp_value
  | N_bool bool
  | N_string string
  | N_vector "native list"
  | N_map "(string \<times> native) list"

text \<open>The loop of the vector converter: the first element that does not decode throws.\<close>

fun from_json_each :: "(json \<Rightarrow> Error + native) \<Rightarrow> json list \<Rightarrow> Error + native list" where
  "from_json_each conv [] = Inr []"
| "from_json_each conv (elem # arr) =
     (case conv elem of
        Inl e \<Rightarrow> Inl e
      | Inr n \<Rightarrow> (case from_json_each conv arr of Inl e \<Rightarrow> Inl e | Inr ns \<Rightarrow> Inr (n # ns)))"

text \<open>The loop of the map converter, \<^verbatim>\<open>result[key] = from_json(value)\<close> for each member.\<close>

fun from_json_members ::
  "(json \<Rightarrow> Error + native) \<Rightarrow> (string \<times> json) list \<Rightarrow> (string \<times> native) list \<Rightarrow>
   Error + (string \<times> native) list" where
  "from_json_members conv [] result = Inr result"
| "from_json_members conv ((key, v) # obj) result =
     (case conv v of
        Inl e \<Rightarrow> Inl e
      | Inr n \<Rightarrow> from_json_members conv obj (AList.update key n result))"

primrec from_json :: "param_type \<Rightarrow> json \<Rightarrow> Error + native" where
  "from_json T_int = (\<lambda>jv.
     if \<not> is_int64 jv then Inl (Error2 InvalidParams msg_expect_int)
     else Inr (N_int (ucast (as_int64 jv))))"
| "from_json T_int64 = (\<lambda>jv.
     if \<not> is_int64 jv then Inl (Error2 InvalidParams msg_expect_int64)
     else Inr (N_int64 (as_int64 jv)))"
| "from_json T_uint64 = (\<lambda>jv.
     if \<not> is_uint64 jv then Inl (Error2 InvalidParams msg_expect_uint64)
     else Inr (N_uint64 (as_uint64 jv)))"
| "from_json T_double = (\<lambda>jv.
     if is_double jv then Inr (N_double (Fp_bits (as_double jv)))
     else if is_int64 jv then Inr (N_double (Fp_of_int64 (as_int64 jv)))
     else if is_uint64 jv then Inr (N_double (Fp_of_uint64 (as_uint64 jv)))
     else Inl (Error2 InvalidParams msg_expect_double))"
| "from_json T_float = (\<lambda>jv.
     if is_double jv then Inr (N_float (Fp_bits (as_double jv)))
     else if is_int64 jv then Inr (N_float (Fp_of_int64 (as_int64 jv)))
     else if is_uint64 jv then Inr (N_float (Fp_of_uint64 (as_uint64 jv)))
     else Inl (Error2 InvalidParams msg_expect_double))"
| "from_json T_bool = (\<lambda>jv.
     if \<not> is_bool jv then Inl (Error2 InvalidParams msg_expect_bool)
     else Inr (N_bool (as_bool jv)))"
| "from_json T_string = (\<lambda>jv.
     if \<not> is_string jv then Inl (Error2 InvalidParams msg_expect_string)
     else Inr (N_string (c_str (as_string jv))))"
| "from_json (T_vector t) = (\<lambda>jv.
     if \<not> is_array jv then Inl (Error2 InvalidParams msg_expect_array)
     else case from_json_each (from_json t) (as_array jv) of
       Inl e \<Rightarrow> Inl e
     | Inr ns \<Rightarrow> Inr (N_vector ns))"
| "from_json (T_map t) = (\<lambda>jv.
     if \<not> is_object jv then Inl (Error2 InvalidParams msg_expect_object)
     else case from_json_members (from_json t) (as_object jv) [] of
       Inl e \<Rightarrow> Inl e
     | Inr m \<Rightarrow> Inr (N_map m))"

text \<open>\<^verbatim>\<open>std::to_string\<close> of a size and of an \<^verbatim>\<open>int\<close>: the decimal digits.\<close>

fun to_string :: "nat \<Rightarrow> string" where
  "to_string n =
     (if n < 10 then [''0123456789'' ! n]
      else to_string (n div 10) @ [''0123456789'' ! (n mod 10)])"

declare to_string.simps [simp del]

definition to_string_int :: "int \<Rightarrow> string" where
  "to_string_int i = (if i < 0 then ''-'' @ to_string (nat (- i)) else to_string (nat i))"

text \<open>
  Parameter extraction. \<open>extract_args_elems\<close> is the pack expansion
  \<^verbatim>\<open>std::make_tuple(json_converter<T>::from_json(arr[Is])...)\<close>: each element is decoded
  with the converter of its position, and the first that does not decode throws. (C++
  leaves the order in which the arguments of a call are evaluated open; when several
  elements do not decode, the error thrown is that of one of them.)
\<close>

fun extract_args_elems :: "param_type list \<Rightarrow> json list \<Rightarrow> Error + native list" where
  "extract_args_elems (t # ts) (elem # arr) =
     (case from_json t elem of
        Inl e \<Rightarrow> Inl e
      | Inr n \<Rightarrow> (case extract_args_elems ts arr of Inl e \<Rightarrow> Inl e | Inr ns \<Rightarrow> Inr (n # ns)))"
| "extract_args_elems ts arr = Inr []"

definition extract_args_impl :: "param_type list \<Rightarrow> json list \<Rightarrow> Error + native list" where
  "extract_args_impl ts arr =
    (if length arr \<noteq> length ts
     then Inl (Error2 InvalidParams
       (msg_arity_1 @ to_string (length ts) @ msg_arity_2 @ to_string (length arr) @ msg_arity_3))
     else extract_args_elems ts arr)"

text \<open>The general template, and its specialisation for a procedure without parameters.\<close>

definition extract_args :: "param_type list \<Rightarrow> json \<Rightarrow> Error + native list" where
  "extract_args ts params =
    (if ts \<noteq> [] then
       (if \<not> is_array params then Inl (Error2 InvalidParams msg_params_not_array)
        else extract_args_impl ts (as_array params))
     else
       (if \<not> is_null params \<and> \<not> is_array params
        then Inl (Error2 InvalidParams msg_params_not_null_or_array)
        else if is_array params \<and> as_array params \<noteq> []
        then Inl (Error2 InvalidParams msg_expect_no_params)
        else Inr []))"

section \<open>Exceptions\<close>

text \<open>
  What a call can throw: a protocol \<^verbatim>\<open>Error\<close>, a \<^verbatim>\<open>std::logic_error\<close>, another exception
  derived from \<^verbatim>\<open>std::exception\<close> (each of the two with its \<^verbatim>\<open>what()\<close> text), or an object
  of a type that does not derive from \<^verbatim>\<open>std::exception\<close>.
\<close>

datatype exn =
    Throw_Error Error
  | Throw_logic_error string
  | Throw_std string
  | Throw_other

definition format_what :: "Error \<Rightarrow> string" where
  "format_what e =
     ''JSON-RPC Error ['' @ to_string_int (sint (err_code e)) @ '']: '' @ err_message e"

text \<open>
  \<open>std_what x\<close> is the \<^verbatim>\<open>what()\<close> text when a handler \<^verbatim>\<open>catch (const std::exception&)\<close>
  catches \<open>x\<close>, and \<open>None\<close> when it does not. (\<^verbatim>\<open>Error\<close> derives from \<^verbatim>\<open>std::exception\<close>.)
\<close>

fun std_what :: "exn \<Rightarrow> string option" where
  "std_what (Throw_Error e) = Some (format_what e)"
| "std_what (Throw_logic_error w) = Some w"
| "std_what (Throw_std w) = Some w"
| "std_what Throw_other = None"

section \<open>The method wrapper\<close>

text \<open>
  A registered procedure, \<^verbatim>\<open>MethodWrapperImpl<Func>\<close>: the declared parameter types
  (\<^verbatim>\<open>function_traits<Func>::args_tuple\<close>) and \<^verbatim>\<open>invoke_and_convert\<close>, which calls the user's
  function on the extracted arguments and encodes what it returns (null for \<^verbatim>\<open>void\<close>); the
  user's function may throw.
\<close>

record method_wrapper =
  mw_args :: "param_type list"
  mw_invoke_and_convert :: "native list \<Rightarrow> exn + json"

text \<open>
  \<^verbatim>\<open>invoke_impl\<close>: the extraction and the call run inside a \<^verbatim>\<open>try\<close>; the first handler
  rethrows a protocol \<^verbatim>\<open>Error\<close>, the second turns any other \<^verbatim>\<open>std::exception\<close> into an
  InternalError; anything else passes through.
\<close>

definition MethodWrapperImpl_invoke :: "method_wrapper \<Rightarrow> json \<Rightarrow> exn + json" where
  "MethodWrapperImpl_invoke w params =
    (case (case extract_args (mw_args w) params of
             Inl e \<Rightarrow> Inl (Throw_Error e)
           | Inr args_tuple \<Rightarrow> mw_invoke_and_convert w args_tuple) of
       Inr v \<Rightarrow> Inr v
     | Inl (Throw_Error e) \<Rightarrow> Inl (Throw_Error e)
     | Inl x \<Rightarrow>
         (case std_what x of
            Some what \<Rightarrow> Inl (Throw_Error (Error2 InternalError (msg_method_failed @ what)))
          | None \<Rightarrow> Inl x))"

section \<open>The method registry\<close>

text \<open>
  \<^verbatim>\<open>std::size_t\<close> is a 64-bit word and \<^verbatim>\<open>unsigned\<close> a 32-bit word (the LP64 and LLP64 data
  models of the 64-bit platforms the library builds on). A \<^verbatim>\<open>boost::asio::thread_pool\<close> is
  represented by the number of threads its constructor was given, and its construction is
  taken to succeed.
\<close>

record thread_pool =
  num_threads :: "32 word"

datatype pool_op = Pool_stop thread_pool | Pool_join thread_pool | Pool_create thread_pool

record MethodRegistry =
  reg_methods :: "string \<rightharpoonup> method_wrapper"
  batch_thread_count :: "64 word"
  batch_pool :: "thread_pool option"

text \<open>The constructor; its argument is what \<^verbatim>\<open>std::thread::hardware_concurrency()\<close> returns.\<close>

definition MethodRegistry_new :: "32 word \<Rightarrow> MethodRegistry" where
  "MethodRegistry_new hardware_concurrency =
    (let n = max 2 (ucast hardware_concurrency :: 64 word) in
     \<lparr>reg_methods = Map.empty, batch_thread_count = n,
      batch_pool = Some \<lparr>num_threads = ucast n\<rparr>\<rparr>)"

text \<open>
  \<open>set_batch_concurrency\<close> returns the operations on thread pools it performs, in program
  order, and the registry it leaves.
\<close>

definition set_batch_concurrency ::
  "64 word \<Rightarrow> MethodRegistry \<Rightarrow> pool_op list \<times> MethodRegistry" where
  "set_batch_concurrency threads reg =
    (let threads = (if threads = 0 then 1 else threads);
         reg = reg\<lparr>batch_thread_count := threads\<rparr>;
         stopped = (case batch_pool reg of
                      Some pool \<Rightarrow> [Pool_stop pool, Pool_join pool]
                    | None \<Rightarrow> []);
         pool = \<lparr>num_threads = ucast (batch_thread_count reg)\<rparr>
     in (stopped @ [Pool_create pool], reg\<lparr>batch_pool := Some pool\<rparr>))"

definition get_batch_pool :: "MethodRegistry \<Rightarrow> thread_pool \<times> MethodRegistry" where
  "get_batch_pool reg =
    (case batch_pool reg of
       None \<Rightarrow>
         (let pool = \<lparr>num_threads = ucast (batch_thread_count reg)\<rparr>
          in (pool, reg\<lparr>batch_pool := Some pool\<rparr>))
     | Some pool \<Rightarrow> (pool, reg))"

definition register_method :: "string \<Rightarrow> method_wrapper \<Rightarrow> MethodRegistry \<Rightarrow> MethodRegistry" where
  "register_method name wrapper reg = reg\<lparr>reg_methods := (reg_methods reg)(name \<mapsto> wrapper)\<rparr>"

text \<open>
  \<open>invoke\<close>: the lookup and the call run inside a \<^verbatim>\<open>try\<close> with two handlers, for a protocol
  \<^verbatim>\<open>Error\<close> and for any other \<^verbatim>\<open>std::exception\<close>. The result is \<open>Inr\<close> of the response
  returned, or \<open>Inl\<close> of what leaves \<open>invoke\<close> as an exception.
\<close>

definition invoke :: "MethodRegistry \<Rightarrow> Request \<Rightarrow> exn + Response" where
  "invoke reg request =
    (let method_name = req_method request;
         params = req_params request;
         i = req_id request in
     case (case reg_methods reg method_name of
             None \<Rightarrow> Inl (Throw_Error (Error2 MethodNotFound (msg_method_not_found @ method_name)))
           | Some wrapper \<Rightarrow> MethodWrapperImpl_invoke wrapper params) of
       Inr result \<Rightarrow> Inr (Response_result result i)
     | Inl (Throw_Error e) \<Rightarrow> Inr (Response_error e i)
     | Inl x \<Rightarrow>
         (case std_what x of
            Some what \<Rightarrow> Inr (Response_error (Error2 InternalError (msg_internal_error @ what)) i)
          | None \<Rightarrow> Inl x))"

text \<open>
  One task of \<open>invoke_batch\<close>, posted to the pool for the request at index \<open>idx\<close>: what it
  appends to \<^verbatim>\<open>indexed_responses\<close>. The handler \<^verbatim>\<open>catch (...)\<close> catches whatever leaves
  \<open>invoke\<close>.
\<close>

definition batch_task :: "MethodRegistry \<Rightarrow> nat \<Rightarrow> Request \<Rightarrow> (nat \<times> Response) list" where
  "batch_task reg idx request =
    (case invoke reg request of
       Inr resp \<Rightarrow> if req_has_id request then [(idx, resp)] else []
     | Inl x \<Rightarrow>
         if req_has_id request
         then [(idx, Response_error (Error2 InternalError msg_batch_failed) (req_id request))]
         else [])"

text \<open>
  \<open>invoke_batch\<close> posts one task for each index and waits until all have completed; the
  pool is taken to execute every task posted to it. The tasks append to
  \<^verbatim>\<open>indexed_responses\<close> under a mutex, in the order \<open>completion\<close> in which they get there:
  a list of the indices, each once. The entries are then sorted by index (the indices are
  distinct, so the sorted list is unique) and the responses returned, together with the
  registry (\<open>get_batch_pool\<close> creates the pool when there is none).
\<close>

definition invoke_batch ::
  "MethodRegistry \<Rightarrow> nat list \<Rightarrow> Request list \<Rightarrow> Response list \<times> MethodRegistry" where
  "invoke_batch reg completion requests =
    (if requests = [] then ([], reg)
     else
       (let (pool, reg) = get_batch_pool reg;
            indexed_responses =
              concat (map (\<lambda>idx. batch_task reg idx (requests ! idx)) completion);
            indexed_responses = sort_key fst indexed_responses
        in (map snd indexed_responses, reg)))"

section \<open>The server\<close>

text \<open>
  Of the server, the running flag and the registry. \<open>Server_set_batch_concurrency\<close>
  returns the exception thrown (if any), the operations on thread pools performed, and
  the server it leaves.
\<close>

record Server =
  running :: bool
  srv_registry :: MethodRegistry

definition is_running :: "Server \<Rightarrow> bool" where
  "is_running srv = running srv"

definition Server_set_batch_concurrency ::
  "64 word \<Rightarrow> Server \<Rightarrow> exn option \<times> pool_op list \<times> Server" where
  "Server_set_batch_concurrency threads srv =
    (if is_running srv then (Some (Throw_logic_error msg_server_running), [], srv)
     else
       (let (ops, reg) = set_batch_concurrency threads (srv_registry srv)
        in (None, ops, srv\<lparr>srv_registry := reg\<rparr>)))"

section \<open>The server session\<close>

text \<open>
  Of an HTTP request, what \<open>process_request\<close> reads: the verb, the value of the
  Content-Type header (empty when there is none), the body and the keep-alive flag. Of the
  response, what it sets. A response that was reset with \<^verbatim>\<open>res_ = {}\<close> has status 200, an
  empty body and, being HTTP/1.1, keep-alive semantics.
\<close>

datatype verb = verb_get | verb_post | verb_other

record http_request =
  hreq_verb :: verb
  hreq_content_type :: string
  hreq_body :: string
  hreq_keep_alive :: bool

record http_response =
  hres_status :: nat
  hres_content_type :: string
  hres_body :: string
  hres_keep_alive :: bool

text \<open>\<^verbatim>\<open>s.find(pat) != npos\<close>: \<open>pat\<close> occurs in \<open>s\<close>.\<close>

primrec has_substring :: "string \<Rightarrow> string \<Rightarrow> bool" where
  "has_substring pat [] \<longleftrightarrow> pat = []"
| "has_substring pat (c # cs) \<longleftrightarrow> take (length pat) (c # cs) = pat \<or> has_substring pat cs"

text \<open>
  One run of \<open>process_request\<close>: the response written, the messages handed to the logger,
  the requests handed to the registry, and the registry afterwards.
\<close>

record session_step =
  ss_response :: http_response
  ss_logs :: "string list"
  ss_dispatched :: "Request list"
  ss_registry :: MethodRegistry

text \<open>
  The body is parsed a second time to see whether it is an array; the text is the one
  that \<open>parse_request\<close> has just parsed, so the second parse yields the same document.
\<close>

definition process_request ::
  "json_parse \<Rightarrow> json_serialize \<Rightarrow> nat list \<Rightarrow> MethodRegistry \<Rightarrow> http_request \<Rightarrow> session_step" where
  "process_request parse serialize completion registry req =
    (if hreq_verb req \<noteq> verb_post then
       \<lparr>ss_response = \<lparr>hres_status = 405, hres_content_type = ''text/plain'',
                       hres_body = msg_only_post, hres_keep_alive = True\<rparr>,
        ss_logs = [msg_not_post], ss_dispatched = [], ss_registry = registry\<rparr>
     else if \<not> has_substring ''application/json'' (hreq_content_type req) then
       \<lparr>ss_response = \<lparr>hres_status = 415, hres_content_type = ''text/plain'',
                       hres_body = msg_bad_content_type, hres_keep_alive = True\<rparr>,
        ss_logs = [msg_bad_content_type_log @ hreq_content_type req],
        ss_dispatched = [], ss_registry = registry\<rparr>
     else
       (let request_body = hreq_body req in
        case parse_request parse request_body of
          Inl e \<Rightarrow>
            \<lparr>ss_response = \<lparr>hres_status = 200, hres_content_type = ''application/json'',
                hres_body = serialize_response serialize (Response_error e JNull),
                hres_keep_alive = True\<rparr>,
             ss_logs = [msg_parse_request_failed @ format_what e],
             ss_dispatched = [], ss_registry = registry\<rparr>
        | Inr requests \<Rightarrow>
            (let is_batch = (1 < length requests \<or>
                   (case parse request_body of Inr jv \<Rightarrow> is_batch_request jv | Inl what \<Rightarrow> False));
                 (responses, registry) = invoke_batch registry completion requests;
                 res = \<lparr>hres_status = 200, hres_content_type = ''application/json'',
                        hres_body = [], hres_keep_alive = True\<rparr>;
                 res = (if is_batch
                        then res\<lparr>hres_body := serialize_batch_response serialize responses\<rparr>
                        else if responses \<noteq> []
                        then res\<lparr>hres_body := serialize_response serialize (responses ! 0)\<rparr>
                        else res\<lparr>hres_status := 204\<rparr>);
                 res = res\<lparr>hres_keep_alive := hreq_keep_alive req\<rparr>
             in \<lparr>ss_response = res, ss_logs = [], ss_dispatched = requests,
                 ss_registry = registry\<rparr>)))"

section \<open>Worked inputs\<close>

text \<open>
  A JSON library for the worked examples: it knows the documents of a finite table of
  texts and refuses every other text, and it knows the texts of a finite table of
  documents.
\<close>

definition parse_table :: "(string \<times> json) list \<Rightarrow> json_parse" where
  "parse_table tbl s = (case map_of tbl s of Some jv \<Rightarrow> Inr jv | None \<Rightarrow> Inl ''syntax error'')"

definition serialize_table :: "(json \<times> string) list \<Rightarrow> json_serialize" where
  "serialize_table tbl jv = (case map_of tbl jv of Some s \<Rightarrow> s | None \<Rightarrow> ''null'')"

text \<open>The documents of the worked examples; \<open>example_parse\<close> below gives their texts.\<close>

definition doc_float_id :: json where
  "doc_float_id = JObject [(''jsonrpc'', JString ''2.0''), (''method'', JString ''ping''),
     (''id'', JDouble 0x3FF8000000000000)]"

definition doc_version_1 :: json where
  "doc_version_1 = JObject [(''jsonrpc'', JString ''1.0''), (''method'', JString ''test''),
     (''id'', JInt64 1)]"

definition doc_notification :: json where
  "doc_notification = JObject [(''jsonrpc'', JString ''2.0''), (''method'', JString ''log''),
     (''params'', JArray [JString ''hi''])]"

definition doc_notification_batch :: json where
  "doc_notification_batch = JArray [doc_notification, doc_notification]"

definition doc_mixed_batch :: json where
  "doc_mixed_batch = JArray
     [JObject [(''jsonrpc'', JString ''2.0''), (''method'', JString ''add''),
        (''params'', JArray [JInt64 5, JInt64 5]), (''id'', JInt64 1)],
      JObject [(''method'', JString ''log'')],
      doc_notification]"

definition doc_error_response :: json where
  "doc_error_response = JObject [(''jsonrpc'', JString ''2.0''),
     (''error'', JObject [(''code'', JInt64 (- 32000)), (''message'', JString ''boom''),
        (''data'', JInt64 7)]),
     (''id'', JInt64 1)]"

definition example_parse :: json_parse where
  \<open>example_parse = parse_table
     [(''{"jsonrpc":"2.0","method":"ping","id":1.5}'', doc_float_id),
      (''{"jsonrpc":"1.0","method":"test","id":1}'', doc_version_1),
      (''{"jsonrpc":"2.0","method":"log","params":["hi"]}'', doc_notification),
      (''[{"jsonrpc":"2.0","method":"log","params":["hi"]},{"jsonrpc":"2.0","method":"log","params":["hi"]}]'',
       doc_notification_batch),
      (''[{"jsonrpc":"2.0","method":"add","params":[5,5],"id":1},{"method":"log"},{"jsonrpc":"2.0","method":"log","params":["hi"]}]'',
       doc_mixed_batch),
      (''{"jsonrpc":"2.0","error":{"code":-32000,"message":"boom","data":7},"id":1}'',
       doc_error_response)]\<close>

definition example_serialize :: json_serialize where
  \<open>example_serialize = serialize_table
     [(JArray [], ''[]''),
      (doc_error_response,
       ''{"jsonrpc":"2.0","error":{"code":-32000,"message":"boom","data":7},"id":1}'')]\<close>

text \<open>
  A registry for the worked examples. \<^verbatim>\<open>add\<close> adds two \<^verbatim>\<open>int\<close>s, \<^verbatim>\<open>log\<close> takes a string
  and returns nothing, \<^verbatim>\<open>divide\<close> throws a protocol error, \<^verbatim>\<open>crash\<close> throws an exception
  derived from \<^verbatim>\<open>std::exception\<close>, and \<^verbatim>\<open>boom\<close> throws an object that is not derived from
  it (as \<^verbatim>\<open>throw 42;\<close> does).
\<close>

definition add_wrapper :: method_wrapper where
  "add_wrapper = \<lparr>mw_args = [T_int, T_int],
     mw_invoke_and_convert = (\<lambda>args_tuple. case args_tuple of
        [N_int a, N_int b] \<Rightarrow> Inr (JInt64 (scast (a + b))) | _ \<Rightarrow> Inr JNull)\<rparr>"

definition log_wrapper :: method_wrapper where
  "log_wrapper = \<lparr>mw_args = [T_string], mw_invoke_and_convert = (\<lambda>args_tuple. Inr JNull)\<rparr>"

definition divide_wrapper :: method_wrapper where
  "divide_wrapper = \<lparr>mw_args = [T_int, T_int],
     mw_invoke_and_convert =
       (\<lambda>args_tuple. Inl (Throw_Error (Error2 InvalidParams ''division by zero'')))\<rparr>"

definition crash_wrapper :: method_wrapper where
  "crash_wrapper = \<lparr>mw_args = [],
     mw_invoke_and_convert = (\<lambda>args_tuple. Inl (Throw_std ''vector::_M_range_check''))\<rparr>"

definition boom_wrapper :: method_wrapper where
  "boom_wrapper = \<lparr>mw_args = [], mw_invoke_and_convert = (\<lambda>args_tuple. Inl Throw_other)\<rparr>"

definition example_registry :: MethodRegistry where
  "example_registry =
     register_method ''boom'' boom_wrapper
       (register_method ''crash'' crash_wrapper
         (register_method ''divide'' divide_wrapper
           (register_method ''log'' log_wrapper
             (register_method ''add'' add_wrapper (MethodRegistry_new 4)))))"

text \<open>A server that is running and one that is stopped, both over the example registry.\<close>

definition running_server :: Server where
  "running_server = \<lparr>running = True, srv_registry = example_registry\<rparr>"

definition stopped_server :: Server where
  "stopped_server = \<lparr>running = False, srv_registry = example_registry\<rparr>"

text \<open>An HTTP POST of a JSON body, and the same body posted as plain text.\<close>

definition post_json :: "string \<Rightarrow> http_request" where
  "post_json body = \<lparr>hreq_verb = verb_post, hreq_content_type = ''application/json'',
     hreq_body = body, hreq_keep_alive = True\<rparr>"

definition post_plain :: "string \<Rightarrow> http_request" where
  "post_plain body = \<lparr>hreq_verb = verb_post, hreq_content_type = ''text/plain'',
     hreq_body = body, hreq_keep_alive = True\<rparr>"

section \<open>The envelope rules in the words of the specification\<close>

text \<open>
  A request object violates the envelope rules when \<^verbatim>\<open>jsonrpc\<close> is missing or is not the
  string "2.0", when \<^verbatim>\<open>method\<close> is missing or is not a string, when \<^verbatim>\<open>params\<close> is present
  but neither null, array nor object, or when \<^verbatim>\<open>id\<close> is present but not of an admitted
  kind. The admitted kinds of an id are a parameter: the specification admits null, string
  and integer; the parser admits null, string and every number.
\<close>

definition id_null_string_integer :: "json \<Rightarrow> bool" where
  "id_null_string_integer v \<longleftrightarrow> is_null v \<or> is_string v \<or> is_int64 v \<or> is_uint64 v"

definition id_null_string_number :: "json \<Rightarrow> bool" where
  "id_null_string_number v \<longleftrightarrow> is_null v \<or> is_string v \<or> is_number v"

definition violates_envelope :: "(json \<Rightarrow> bool) \<Rightarrow> (string \<times> json) list \<Rightarrow> bool" where
  "violates_envelope id_ok obj \<longleftrightarrow>
     (case map_of obj ''jsonrpc'' of None \<Rightarrow> True | Some v \<Rightarrow> v \<noteq> JString ''2.0'') \<or>
     (case map_of obj ''method'' of None \<Rightarrow> True | Some v \<Rightarrow> \<not> is_string v) \<or>
     (case map_of obj ''params'' of None \<Rightarrow> False
      | Some v \<Rightarrow> \<not> is_null v \<and> \<not> is_array v \<and> \<not> is_object v) \<or>
     (case map_of obj ''id'' of None \<Rightarrow> False | Some v \<Rightarrow> \<not> id_ok v)"

fun is_violating_object :: "(json \<Rightarrow> bool) \<Rightarrow> json \<Rightarrow> bool" where
  "is_violating_object id_ok (JObject obj) = violates_envelope id_ok obj"
| "is_violating_object id_ok _ = False"

text \<open>
  The document of a request body violates the rules when it is a violating object, or a
  batch with a violating object among its elements.
\<close>

fun envelope_violated :: "(json \<Rightarrow> bool) \<Rightarrow> json \<Rightarrow> bool" where
  "envelope_violated id_ok (JObject obj) = violates_envelope id_ok obj"
| "envelope_violated id_ok (JArray arr) = list_ex (is_violating_object id_ok) arr"
| "envelope_violated id_ok _ = False"

section \<open>Decoding in the words of the specification\<close>

text \<open>An element decodes to a declared type when the converter of that type returns.\<close>

definition decodes :: "param_type \<Rightarrow> json \<Rightarrow> bool" where
  "decodes t jv \<longleftrightarrow> \<not> isl (from_json t jv)"

section \<open>Outcomes of a call, for the statements about invocation\<close>

text \<open>
  The procedure of a request throws an object that is not a \<^verbatim>\<open>std::exception\<close>: the method
  is registered, the parameters are extracted, and the call ends that way.
\<close>

definition throws_other :: "MethodRegistry \<Rightarrow> Request \<Rightarrow> bool" where
  "throws_other reg request \<longleftrightarrow>
    (case reg_methods reg (req_method request) of
       None \<Rightarrow> False
     | Some w \<Rightarrow>
         (case extract_args (mw_args w) (req_params request) of
            Inl e \<Rightarrow> False
          | Inr args_tuple \<Rightarrow> mw_invoke_and_convert w args_tuple = Inl Throw_other))"

text \<open>
  The response that a batch holds for a request with an id: the one \<open>invoke\<close> returns, or,
  when an exception leaves \<open>invoke\<close>, the InternalError response of the task's handler.
\<close>

definition batch_response :: "MethodRegistry \<Rightarrow> Request \<Rightarrow> Response" where
  "batch_response reg request =
    (case invoke reg request of
       Inr resp \<Rightarrow> resp
     | Inl x \<Rightarrow> Response_error (Error2 InternalError msg_batch_failed) (req_id request))"

section \<open>Parser strictness\<close>

lemma neq_JString: "v \<noteq> JString s \<longleftrightarrow> \<not> is_string v \<or> as_string v \<noteq> s"
  by (cases v) auto

lemma Request_from_json_code:
  "Request_from_json jv = Inl e \<Longrightarrow> err_code e = InvalidRequest"
  by (auto simp: Request_from_json_def Let_def Error2_def split: if_splits)

lemma Request_from_json_violation:
  "violates_envelope id_null_string_number obj \<Longrightarrow> \<exists>e. Request_from_json (JObject obj) = Inl e"
  unfolding violates_envelope_def Request_from_json_def contains_def at_def
    id_null_string_number_def
  by (auto simp: Let_def neq_JString split: option.splits)

lemma requests_from_json_code:
  "requests_from_json arr = Inl e \<Longrightarrow> err_code e = InvalidRequest"
  by (induction arr arbitrary: e) (auto split: sum.splits dest: Request_from_json_code)

lemma requests_from_json_violation:
  "list_ex (is_violating_object id_null_string_number) arr \<Longrightarrow>
   \<exists>e. requests_from_json arr = Inl e"
proof (induction arr)
  case Nil
  then show ?case by simp
next
  case (Cons elem arr)
  show ?case
  proof (cases "Request_from_json elem")
    case (Inl e)
    then show ?thesis by simp
  next
    case (Inr r)
    then have "\<not> is_violating_object id_null_string_number elem"
      using Request_from_json_violation [of "as_object elem"] by (cases elem) auto
    with Cons show ?thesis by (auto simp: Inr split: sum.splits)
  qed
qed

text \<open>
  Claim C1, as amended. Whenever the top-level JSON of the input parses and the request
  object (or an object of the batch) violates an envelope rule, where an id is admitted
  when it is null, a string or any number (integer or floating point),
  \<open>parse_request\<close> fails with an error whose code is InvalidRequest, that is -32600.
\<close>

theorem parse_request_strict:
  assumes "parse json_str = Inr jv" and "envelope_violated id_null_string_number jv"
  shows "\<exists>e. parse_request parse json_str = Inl e \<and> err_code e = InvalidRequest \<and>
             sint (err_code e) = - 32600"
proof -
  have "\<exists>e. parse_request parse json_str = Inl e \<and> err_code e = InvalidRequest"
  proof (cases jv)
    case (JObject obj)
    with assms Request_from_json_violation [of obj] show ?thesis
      by (auto simp: parse_request_def is_batch_request_def dest: Request_from_json_code)
  next
    case (JArray arr)
    with assms requests_from_json_violation [of arr] show ?thesis
      by (auto simp: parse_request_def is_batch_request_def Let_def Error2_def
               dest: requests_from_json_code)
  qed (use assms in auto)
  then show ?thesis by (auto simp: InvalidRequest_def)
qed

text \<open>The theorem at a request of version 1.0.\<close>

theorem parse_request_strict_witness:
  \<open>example_parse ''{"jsonrpc":"1.0","method":"test","id":1}'' = Inr doc_version_1 \<and>
   envelope_violated id_null_string_number doc_version_1 \<and>
   (\<exists>e. parse_request example_parse ''{"jsonrpc":"1.0","method":"test","id":1}'' = Inl e \<and>
        err_code e = InvalidRequest \<and> sint (err_code e) = - 32600)\<close>
proof -
  have p: \<open>example_parse ''{"jsonrpc":"1.0","method":"test","id":1}'' = Inr doc_version_1\<close>
    by (simp add: example_parse_def parse_table_def)
  have v: "envelope_violated id_null_string_number doc_version_1"
    by (simp add: doc_version_1_def violates_envelope_def)
  from p v parse_request_strict [of example_parse _ doc_version_1, OF p v] show ?thesis
    by blast
qed

text \<open>
  The claim as stated admits only integers as numeric ids. A request whose id is 1.5
  violates that rule, and \<open>parse_request\<close> accepts it.
\<close>

theorem parse_request_float_id_accepted:
  \<open>envelope_violated id_null_string_integer doc_float_id \<and>
   parse_request example_parse ''{"jsonrpc":"2.0","method":"ping","id":1.5}''
   = Inr [Request3 ''ping'' JNull (JDouble 0x3FF8000000000000)]\<close>
  by (simp add: doc_float_id_def example_parse_def parse_table_def parse_request_def
      is_batch_request_def Request_from_json_def contains_def at_def c_str_def is_number_def
      violates_envelope_def id_null_string_integer_def)

section \<open>Integer parameters\<close>

lemma sint_ucast_32:
  fixes w :: "64 word"
  assumes "- (2 ^ 31) \<le> sint w" and "sint w < 2 ^ 31"
  shows "sint (ucast w :: 32 word) = sint w"
proof -
  have "sint w = signed_take_bit 31 (sint w)"
    using assms by (simp add: signed_take_bit_int_eq_self)
  also have "\<dots> = signed_take_bit 31 (uint w)"
    by (simp add: sint_uint)
  also have "\<dots> = sint (ucast w :: 32 word)"
    by (simp add: sint_uint unsigned_ucast_eq signed_take_bit_take_bit)
  finally show ?thesis by simp
qed

lemma uint_ucast_32:
  fixes w :: "64 word"
  shows "uint (ucast w :: 32 word) = uint w mod 2 ^ 32"
  by (simp add: unsigned_ucast_eq take_bit_eq_mod)

text \<open>
  Claim C6, as amended. Decoding into an integer parameter type succeeds exactly when the
  JSON value is of the matching integer kind: the signed kind for \<^verbatim>\<open>int\<close> and \<^verbatim>\<open>int64_t\<close>,
  the unsigned kind for \<^verbatim>\<open>uint64_t\<close> (there is no converter for a 32-bit unsigned type);
  every mismatch of kind fails with InvalidParams. A 64-bit JSON integer decodes into the
  64-bit type of its signedness unchanged. Into \<^verbatim>\<open>int\<close> it decodes by keeping its low 32
  bits: the value is preserved when it fits, and a value that does not fit is not a
  failure.
\<close>

theorem integer_decoding:
  "(\<not> isl (from_json T_int jv) \<longleftrightarrow> is_int64 jv) \<and>
   (\<not> isl (from_json T_int64 jv) \<longleftrightarrow> is_int64 jv) \<and>
   (\<not> isl (from_json T_uint64 jv) \<longleftrightarrow> is_uint64 jv) \<and>
   (\<forall>t \<in> {T_int, T_int64, T_uint64}. \<forall>e. from_json t jv = Inl e \<longrightarrow> err_code e = InvalidParams) \<and>
   from_json T_int64 (JInt64 w) = Inr (N_int64 w) \<and>
   from_json T_uint64 (JUInt64 w) = Inr (N_uint64 w) \<and>
   (\<exists>n. from_json T_int (JInt64 w) = Inr (N_int n) \<and> uint n = uint w mod 2 ^ 32 \<and>
        (- (2 ^ 31) \<le> sint w \<and> sint w < 2 ^ 31 \<longrightarrow> sint n = sint w))"
  by (auto simp: Error2_def uint_ucast_32 sint_ucast_32)

text \<open>The theorem at the JSON integers 42 and \<open>2\<^sup>3\<^sup>2 + 5\<close>.\<close>

theorem integer_decoding_witness:
  "\<not> isl (from_json T_int (JInt64 42)) \<and>
   from_json T_int64 (JInt64 4294967301) = Inr (N_int64 4294967301) \<and>
   (\<exists>n. from_json T_int (JInt64 4294967301) = Inr (N_int n) \<and> uint n = 5)"
  using integer_decoding [of "JInt64 42" 4294967301] by simp

text \<open>
  The claim as stated makes narrowing a failure. The JSON integer \<open>2\<^sup>3\<^sup>2 + 5\<close> does not fit
  an \<^verbatim>\<open>int\<close>, and decodes to 5.
\<close>

theorem int_narrowing_accepted:
  "\<not> sint (4294967301 :: 64 word) < 2 ^ 31 \<and>
   from_json T_int (JInt64 4294967301) = Inr (N_int 5)"
  by simp

section \<open>Parameter extraction\<close>

lemma from_json_each_code:
  assumes "\<And>jv e. conv jv = Inl e \<Longrightarrow> err_code e = InvalidParams"
  shows "from_json_each conv arr = Inl e \<Longrightarrow> err_code e = InvalidParams"
  using assms by (induction arr arbitrary: e) (auto split: sum.splits)

lemma from_json_members_code:
  assumes "\<And>jv e. conv jv = Inl e \<Longrightarrow> err_code e = InvalidParams"
  shows "from_json_members conv obj acc = Inl e \<Longrightarrow> err_code e = InvalidParams"
  using assms by (induction conv obj acc rule: from_json_members.induct) (auto split: sum.splits)

lemma from_json_code: "from_json t jv = Inl e \<Longrightarrow> err_code e = InvalidParams"
proof (induction t arbitrary: jv e)
  case (T_vector u)
  have each: "\<And>arr e. from_json_each (from_json u) arr = Inl e \<Longrightarrow> err_code e = InvalidParams"
    by (rule from_json_each_code) (rule T_vector.IH)
  from T_vector.prems each show ?case
    by (auto simp: Error2_def split: if_splits sum.splits)
next
  case (T_map u)
  have members: "\<And>obj acc e. from_json_members (from_json u) obj acc = Inl e \<Longrightarrow>
      err_code e = InvalidParams"
    by (rule from_json_members_code) (rule T_map.IH)
  from T_map.prems members show ?case
    by (auto simp: Error2_def split: if_splits sum.splits)
qed (auto simp: Error2_def split: if_splits)

lemma extract_args_elems_code:
  "extract_args_elems ts arr = Inl e \<Longrightarrow> err_code e = InvalidParams"
  by (induction ts arr arbitrary: e rule: extract_args_elems.induct)
     (auto split: sum.splits dest: from_json_code)

lemma extract_args_elems_ok:
  "length arr = length ts \<Longrightarrow>
   \<not> isl (extract_args_elems ts arr) \<longleftrightarrow> list_all2 decodes ts arr"
  by (induction ts arr rule: list_induct2') (auto simp: decodes_def split: sum.splits)

text \<open>
  Claim C7. For a procedure that declares no parameter, extraction succeeds exactly when
  \<open>params\<close> is null (which is also what an absent \<open>params\<close> is parsed to) or the empty
  array. For a procedure that declares the types \<open>ts\<close>, at least one, it succeeds exactly
  when \<open>params\<close> is an array as long as \<open>ts\<close> whose elements each decode to the type at
  their position. Every failure has the code InvalidParams.
\<close>

theorem extract_args_rules:
  "(\<not> isl (extract_args ts params) \<longleftrightarrow>
      (if ts = [] then is_null params \<or> params = JArray []
       else is_array params \<and> length (as_array params) = length ts \<and>
            list_all2 decodes ts (as_array params))) \<and>
   (\<forall>e. extract_args ts params = Inl e \<longrightarrow> err_code e = InvalidParams)"
proof
  show "\<not> isl (extract_args ts params) \<longleftrightarrow>
      (if ts = [] then is_null params \<or> params = JArray []
       else is_array params \<and> length (as_array params) = length ts \<and>
            list_all2 decodes ts (as_array params))"
  proof (cases "ts = []")
    case True
    then show ?thesis by (cases params) (auto simp: extract_args_def)
  next
    case False
    then show ?thesis
      using extract_args_elems_ok [of "as_array params" ts]
      by (auto simp: extract_args_def extract_args_impl_def)
  qed
  show "\<forall>e. extract_args ts params = Inl e \<longrightarrow> err_code e = InvalidParams"
    by (auto simp: extract_args_def extract_args_impl_def Error2_def
        split: if_splits dest: extract_args_elems_code)
qed

text \<open>
  The theorem at the parameters \<^verbatim>\<open>[10, 20]\<close> of a procedure declared with two \<^verbatim>\<open>int\<close>s,
  which are extracted, and at \<^verbatim>\<open>[10]\<close>, which is refused with InvalidParams.
\<close>

theorem extract_args_rules_witness:
  "\<not> isl (extract_args [T_int, T_int] (JArray [JInt64 10, JInt64 20])) \<and>
   isl (extract_args [T_int, T_int] (JArray [JInt64 10])) \<and>
   err_code (projl (extract_args [T_int, T_int] (JArray [JInt64 10]))) = InvalidParams"
proof -
  have "list_all2 decodes [T_int, T_int] [JInt64 10, JInt64 20]"
    by (simp add: decodes_def)
  with extract_args_rules [of "[T_int, T_int]" "JArray [JInt64 10, JInt64 20]"]
  have ok: "\<not> isl (extract_args [T_int, T_int] (JArray [JInt64 10, JInt64 20]))"
    by simp
  from extract_args_rules [of "[T_int, T_int]" "JArray [JInt64 10]"]
  have refused: "isl (extract_args [T_int, T_int] (JArray [JInt64 10]))"
    and code: "\<And>e. extract_args [T_int, T_int] (JArray [JInt64 10]) = Inl e \<Longrightarrow>
      err_code e = InvalidParams"
    by simp_all
  from refused code have "err_code (projl (extract_args [T_int, T_int] (JArray [JInt64 10]))) =
      InvalidParams"
    by (cases "extract_args [T_int, T_int] (JArray [JInt64 10])") simp_all
  with ok refused show ?thesis by simp
qed

section \<open>The pool of a new registry\<close>

lemma ucast_ucast_32:
  fixes hc :: "32 word"
  shows "(ucast (ucast hc :: 64 word) :: 32 word) = hc"
  by (rule bit_word_eqI) (auto simp: bit_unsigned_iff dest: bit_imp_le_length)

lemma two_le_ucast:
  fixes hc :: "32 word"
  shows "2 \<le> (ucast hc :: 64 word) \<longleftrightarrow> 2 \<le> hc"
  by (simp add: word_le_nat_alt unsigned_ucast_eq take_bit_nat_eq_self
      order_less_le_trans [OF unsigned_less])

text \<open>A new registry has a pool of \<open>max 2 hardware_concurrency\<close> threads.\<close>

lemma MethodRegistry_new_pool:
  "batch_pool (MethodRegistry_new hc) = Some \<lparr>num_threads = max 2 hc\<rparr>"
  by (simp add: MethodRegistry_new_def Let_def max_def two_le_ucast ucast_ucast_32)

section \<open>Single invocation\<close>

lemma wrapper_invoke_cases:
  "MethodWrapperImpl_invoke w params =
    (case extract_args (mw_args w) params of
       Inl e \<Rightarrow> Inl (Throw_Error e)
     | Inr args_tuple \<Rightarrow>
        (case mw_invoke_and_convert w args_tuple of
           Inr v \<Rightarrow> Inr v
         | Inl (Throw_Error e) \<Rightarrow> Inl (Throw_Error e)
         | Inl (Throw_logic_error what) \<Rightarrow>
             Inl (Throw_Error (Error2 InternalError (msg_method_failed @ what)))
         | Inl (Throw_std what) \<Rightarrow>
             Inl (Throw_Error (Error2 InternalError (msg_method_failed @ what)))
         | Inl Throw_other \<Rightarrow> Inl Throw_other))"
  by (simp add: MethodWrapperImpl_invoke_def split: sum.splits exn.splits)

lemma invoke_id: "invoke reg request = Inr resp \<Longrightarrow> resp_id resp = req_id request"
  unfolding invoke_def wrapper_invoke_cases Let_def
  by (auto simp: Response_error_def Response_result_def
      split: option.splits sum.splits exn.splits)

text \<open>
  Claim C4, as amended. For every request, \<open>invoke\<close> returns a response whose id is the
  request's id, unless the procedure throws an object that is not derived from
  \<^verbatim>\<open>std::exception\<close>: that object leaves \<open>invoke\<close> as an exception. When the method name
  is not registered, the response is an error with code MethodNotFound (-32601). When the
  parameters are refused, or the procedure throws a protocol \<^verbatim>\<open>Error\<close>, the response
  carries that error unchanged. When the procedure throws any other exception derived
  from \<^verbatim>\<open>std::exception\<close>, the response carries an InternalError whose message is a fixed
  prefix followed by the \<^verbatim>\<open>what()\<close> text of the exception.
\<close>

theorem invoke_response:
  "(if throws_other reg request then invoke reg request = Inl Throw_other
    else \<exists>resp. invoke reg request = Inr resp \<and> resp_id resp = req_id request) \<and>
   (reg_methods reg (req_method request) = None \<longrightarrow>
      invoke reg request =
        Inr (Response_error
              (Error2 MethodNotFound (msg_method_not_found @ req_method request))
              (req_id request)) \<and>
      sint MethodNotFound = - 32601) \<and>
   (reg_methods reg (req_method request) = Some w \<and>
    extract_args (mw_args w) (req_params request) = Inl e \<longrightarrow>
      invoke reg request = Inr (Response_error e (req_id request))) \<and>
   (reg_methods reg (req_method request) = Some w \<and>
    extract_args (mw_args w) (req_params request) = Inr args_tuple \<longrightarrow>
      (mw_invoke_and_convert w args_tuple = Inl (Throw_Error e) \<longrightarrow>
         invoke reg request = Inr (Response_error e (req_id request))) \<and>
      (mw_invoke_and_convert w args_tuple = Inl x \<and> std_what x = Some what \<and>
       (\<forall>e'. x \<noteq> Throw_Error e') \<longrightarrow>
         invoke reg request =
           Inr (Response_error (Error2 InternalError (msg_method_failed @ what))
                 (req_id request))))"
  unfolding invoke_def throws_other_def wrapper_invoke_cases Let_def
  by (auto simp: Response_error_def Response_result_def MethodNotFound_def
      split: option.splits sum.splits exn.splits)

text \<open>
  The theorem at a call of \<^verbatim>\<open>crash\<close>, whose procedure throws an exception derived from
  \<^verbatim>\<open>std::exception\<close>, and at a call of a method that is not registered.
\<close>

theorem invoke_response_witness:
  "\<not> throws_other example_registry (Request3 ''crash'' JNull (JInt64 1)) \<and>
   invoke example_registry (Request3 ''crash'' JNull (JInt64 1)) =
     Inr (Response_error
           (Error2 InternalError (msg_method_failed @ ''vector::_M_range_check''))
           (JInt64 1)) \<and>
   invoke example_registry (Request3 ''nope'' (JArray []) (JInt64 7)) =
     Inr (Response_error (Error2 MethodNotFound (msg_method_not_found @ ''nope'')) (JInt64 7))"
proof -
  have found: "reg_methods example_registry ''crash'' = Some crash_wrapper"
    by (simp add: example_registry_def register_method_def)
  have extracted: "extract_args (mw_args crash_wrapper) JNull = Inr []"
    by (simp add: crash_wrapper_def extract_args_def)
  have thrown: "mw_invoke_and_convert crash_wrapper [] = Inl (Throw_std ''vector::_M_range_check'')"
    by (simp add: crash_wrapper_def)
  have absent: "reg_methods example_registry ''nope'' = None"
    by (simp add: example_registry_def register_method_def MethodRegistry_new_def)
  have quiet: "\<not> throws_other example_registry (Request3 ''crash'' JNull (JInt64 1))"
    by (simp add: throws_other_def Request3_def found extracted thrown)
  from invoke_response [where reg = example_registry
      and request = "Request3 ''crash'' JNull (JInt64 1)" and w = crash_wrapper
      and args_tuple = "[]" and e = "Error2 InternalError []"
      and x = "Throw_std ''vector::_M_range_check''" and what = "''vector::_M_range_check''"]
    found extracted thrown
  have crash: "invoke example_registry (Request3 ''crash'' JNull (JInt64 1)) =
     Inr (Response_error
           (Error2 InternalError (msg_method_failed @ ''vector::_M_range_check''))
           (JInt64 1))"
    by (simp add: Request3_def)
  from invoke_response [where reg = example_registry
      and request = "Request3 ''nope'' (JArray []) (JInt64 7)" and w = crash_wrapper
      and args_tuple = "[]" and e = "Error2 InternalError []" and x = Throw_other
      and what = "[]"] absent
  have nope: "invoke example_registry (Request3 ''nope'' (JArray []) (JInt64 7)) =
     Inr (Response_error (Error2 MethodNotFound (msg_method_not_found @ ''nope'')) (JInt64 7))"
    by (simp add: Request3_def)
  from quiet crash nope show ?thesis by simp
qed

text \<open>
  The claim as stated lets \<open>invoke\<close> never raise. The procedure \<^verbatim>\<open>boom\<close> throws an object
  that is not a \<^verbatim>\<open>std::exception\<close>; neither handler catches it, and it leaves \<open>invoke\<close>.
\<close>

theorem invoke_raises:
  "invoke example_registry (Request3 ''boom'' JNull (JInt64 1)) = Inl Throw_other"
  by (simp add: invoke_def example_registry_def register_method_def boom_wrapper_def
      MethodWrapperImpl_invoke_def extract_args_def Request3_def)

section \<open>Batch invocation\<close>

lemma batch_task_eq:
  "batch_task reg idx request =
     (if req_has_id request then [(idx, batch_response reg request)] else [])"
  by (simp add: batch_task_def batch_response_def split: sum.splits)

lemma concat_batch_tasks:
  "concat (map (\<lambda>idx. batch_task reg idx (requests ! idx)) completion) =
   map (\<lambda>idx. (idx, batch_response reg (requests ! idx)))
     (filter (\<lambda>idx. req_has_id (requests ! idx)) completion)"
  by (induction completion) (simp_all add: batch_task_eq)

lemma insort_key_fst_map:
  "insort_key fst (i, g i) (map (\<lambda>i. (i, g i)) xs) = map (\<lambda>i. (i, g i)) (insort i xs)"
  by (induction xs) simp_all

lemma sort_key_fst_map:
  "sort_key fst (map (\<lambda>i. (i, g i)) xs) = map (\<lambda>i. (i, g i)) (sort xs)"
  by (induction xs) (simp_all add: insort_key_fst_map)

lemma sort_completion:
  assumes "distinct completion" and "set completion = {..<n}"
  shows "sort completion = [0..<n]"
proof -
  have "sort completion = sorted_list_of_set (set completion)"
    using assms(1) by (simp add: sorted_list_of_set_sort_remdups distinct_remdups_id)
  also have "\<dots> = [0..<n]"
    using assms(2) by (simp add: lessThan_atLeast0)
  finally show ?thesis .
qed

lemma map_filter_nth:
  "map (\<lambda>idx. f (xs ! idx)) (filter (\<lambda>idx. P (xs ! idx)) [0..<length xs]) = map f (filter P xs)"
proof -
  have "map f (filter P xs) = map f (filter P (map (\<lambda>idx. xs ! idx) [0..<length xs]))"
    by (simp add: map_nth)
  also have "\<dots> = map (\<lambda>idx. f (xs ! idx)) (filter (\<lambda>idx. P (xs ! idx)) [0..<length xs])"
    by (simp add: filter_map comp_def)
  finally show ?thesis by simp
qed

lemma invoke_get_batch_pool: "invoke (snd (get_batch_pool reg)) = invoke reg"
  by (rule ext) (simp add: invoke_def get_batch_pool_def Let_def split: option.splits)

lemma batch_response_get_batch_pool:
  "batch_response (snd (get_batch_pool reg)) = batch_response reg"
  by (rule ext) (simp add: batch_response_def invoke_get_batch_pool)

lemma invoke_batch_eq:
  assumes "distinct completion" and "set completion = {..<length requests}"
  shows "fst (invoke_batch reg completion requests) =
           map (batch_response reg) (filter req_has_id requests)"
proof (cases "requests = []")
  case True
  then show ?thesis by (simp add: invoke_batch_def)
next
  case False
  have "fst (invoke_batch reg completion requests) =
      map snd (sort_key fst (map (\<lambda>idx. (idx, batch_response reg (requests ! idx)))
        (filter (\<lambda>idx. req_has_id (requests ! idx)) completion)))"
    using False
    by (simp add: invoke_batch_def split_beta concat_batch_tasks batch_response_get_batch_pool)
  also have "\<dots> = map (\<lambda>idx. batch_response reg (requests ! idx))
        (filter (\<lambda>idx. req_has_id (requests ! idx)) (sort completion))"
    by (simp add: sort_key_fst_map filter_sort comp_def)
  also have "\<dots> = map (batch_response reg) (filter req_has_id requests)"
    by (simp add: sort_completion [OF assms] map_filter_nth)
  finally show ?thesis .
qed

lemma batch_response_id: "resp_id (batch_response reg request) = req_id request"
  by (auto simp: batch_response_def Response_error_def split: sum.splits dest: invoke_id)

text \<open>
  Claim C3. Let the registry's pool have at least one thread. The size of the pool only
  decides in which order the tasks complete; for every such order \<open>completion\<close> (a list
  of the indices of the batch, each once), \<open>invoke_batch\<close> returns exactly the responses
  of the requests that have an id, in the order of the requests, and each carries the id
  of its request. A notification contributes nothing, whatever its execution raises: the
  result is that of the batch without its notifications.
\<close>

theorem invoke_batch_responses:
  assumes "1 \<le> num_threads (fst (get_batch_pool reg))"
      and "distinct completion" and "set completion = {..<length requests}"
  shows "fst (invoke_batch reg completion requests) =
           map (batch_response reg) (filter req_has_id requests) \<and>
         map resp_id (fst (invoke_batch reg completion requests)) =
           map req_id (filter req_has_id requests) \<and>
         fst (invoke_batch reg completion requests) =
           fst (invoke_batch reg [0..<length (filter req_has_id requests)]
                  (filter req_has_id requests))"
proof -
  have eq: "fst (invoke_batch reg completion requests) =
           map (batch_response reg) (filter req_has_id requests)"
    by (rule invoke_batch_eq [OF assms(2,3)])
  have "fst (invoke_batch reg [0..<length (filter req_has_id requests)]
              (filter req_has_id requests)) =
        map (batch_response reg) (filter req_has_id (filter req_has_id requests))"
    by (rule invoke_batch_eq) (simp_all add: lessThan_atLeast0)
  with eq show ?thesis by (simp add: batch_response_id comp_def)
qed

text \<open>
  The theorem at a batch of four: a call of \<^verbatim>\<open>add\<close> with id 1, a notification of \<^verbatim>\<open>log\<close>,
  a notification of \<^verbatim>\<open>divide\<close> (whose procedure throws), and a call of \<^verbatim>\<open>boom\<close> with id 2;
  the tasks complete in the order 3, 1, 0, 2.
\<close>

theorem invoke_batch_responses_witness:
  "num_threads (fst (get_batch_pool example_registry)) = 4 \<and>
   distinct [3, 1, 0, 2 :: nat] \<and>
   set [3, 1, 0, 2 :: nat] =
     {..<length [Request3 ''add'' (JArray [JInt64 5, JInt64 5]) (JInt64 1),
                 Request2 ''log'' (JArray [JString ''x'']),
                 Request2 ''divide'' (JArray [JInt64 1, JInt64 0]),
                 Request3 ''boom'' JNull (JInt64 2)]} \<and>
   fst (invoke_batch example_registry [3, 1, 0, 2]
          [Request3 ''add'' (JArray [JInt64 5, JInt64 5]) (JInt64 1),
           Request2 ''log'' (JArray [JString ''x'']),
           Request2 ''divide'' (JArray [JInt64 1, JInt64 0]),
           Request3 ''boom'' JNull (JInt64 2)]) =
     [Response_result (JInt64 10) (JInt64 1),
      Response_error (Error2 InternalError msg_batch_failed) (JInt64 2)]"
proof -
  have n: "num_threads (fst (get_batch_pool example_registry)) = 4"
    by (simp add: get_batch_pool_def example_registry_def register_method_def
        MethodRegistry_new_pool)
  then have t: "1 \<le> num_threads (fst (get_batch_pool example_registry))"
    by simp
  have d: "distinct [3, 1, 0, 2 :: nat]"
    by simp
  have s: "set [3, 1, 0, 2 :: nat] =
     {..<length [Request3 ''add'' (JArray [JInt64 5, JInt64 5]) (JInt64 1),
                 Request2 ''log'' (JArray [JString ''x'']),
                 Request2 ''divide'' (JArray [JInt64 1, JInt64 0]),
                 Request3 ''boom'' JNull (JInt64 2)]}"
    by auto
  have add: "batch_response example_registry
      (Request3 ''add'' (JArray [JInt64 5, JInt64 5]) (JInt64 1)) =
      Response_result (JInt64 10) (JInt64 1)"
    by (simp add: batch_response_def invoke_def example_registry_def register_method_def
        add_wrapper_def MethodWrapperImpl_invoke_def extract_args_def extract_args_impl_def
        Request3_def)
  have boom: "batch_response example_registry (Request3 ''boom'' JNull (JInt64 2)) =
      Response_error (Error2 InternalError msg_batch_failed) (JInt64 2)"
    by (simp add: batch_response_def invoke_def example_registry_def register_method_def
        boom_wrapper_def MethodWrapperImpl_invoke_def extract_args_def Request3_def)
  from invoke_batch_responses [OF t d s] add boom n d s show ?thesis
    by (simp add: Request3_def Request2_def)
qed

section \<open>Resizing the batch pool\<close>

text \<open>
  Claim C8. While the server is running, \<open>Server_set_batch_concurrency\<close> throws a
  \<^verbatim>\<open>std::logic_error\<close>, performs no operation on a pool and leaves the server, with its
  registry and pool, as it was. While the server is stopped it throws nothing and
  rebuilds the pool: the old pool is stopped, then joined, and only then the new pool is
  created, with the requested number of threads (1 for the request 0), and installed in
  the registry.
\<close>

theorem Server_set_batch_concurrency_guard:
  "(is_running srv \<longrightarrow>
      Server_set_batch_concurrency threads srv =
        (Some (Throw_logic_error msg_server_running), [], srv)) \<and>
   (\<not> is_running srv \<longrightarrow>
      (\<exists>new_pool ops srv'.
         Server_set_batch_concurrency threads srv = (None, ops, srv') \<and>
         ops = (case batch_pool (srv_registry srv) of
                  Some old_pool \<Rightarrow> [Pool_stop old_pool, Pool_join old_pool]
                | None \<Rightarrow> []) @ [Pool_create new_pool] \<and>
         batch_pool (srv_registry srv') = Some new_pool \<and>
         num_threads new_pool = ucast (if threads = 0 then 1 else threads) \<and>
         reg_methods (srv_registry srv') = reg_methods (srv_registry srv) \<and>
         running srv' = running srv))"
  by (simp add: Server_set_batch_concurrency_def set_batch_concurrency_def Let_def
      split: option.splits)

text \<open>The theorem at the running and at the stopped example server, resized to 8.\<close>

theorem Server_set_batch_concurrency_guard_witness:
  "is_running running_server \<and>
   Server_set_batch_concurrency 8 running_server =
     (Some (Throw_logic_error msg_server_running), [], running_server) \<and>
   \<not> is_running stopped_server \<and>
   fst (Server_set_batch_concurrency 8 stopped_server) = None \<and>
   fst (snd (Server_set_batch_concurrency 8 stopped_server)) =
     [Pool_stop \<lparr>num_threads = 4\<rparr>, Pool_join \<lparr>num_threads = 4\<rparr>,
      Pool_create \<lparr>num_threads = 8\<rparr>] \<and>
   batch_pool (srv_registry (snd (snd (Server_set_batch_concurrency 8 stopped_server)))) =
     Some \<lparr>num_threads = 8\<rparr>"
proof -
  have r: "is_running running_server"
    by (simp add: is_running_def running_server_def)
  have s: "\<not> is_running stopped_server"
    by (simp add: is_running_def stopped_server_def)
  have old: "batch_pool (srv_registry stopped_server) = Some \<lparr>num_threads = 4\<rparr>"
    by (simp add: stopped_server_def example_registry_def register_method_def
        MethodRegistry_new_def)
  from Server_set_batch_concurrency_guard [of running_server 8] r
  have running: "Server_set_batch_concurrency 8 running_server =
      (Some (Throw_logic_error msg_server_running), [], running_server)"
    by simp
  from Server_set_batch_concurrency_guard [of stopped_server 8] s old
  obtain new_pool ops srv' where
    res: "Server_set_batch_concurrency 8 stopped_server = (None, ops, srv')" and
    ops: "ops = [Pool_stop \<lparr>num_threads = 4\<rparr>, Pool_join \<lparr>num_threads = 4\<rparr>, Pool_create new_pool]"
    and pool: "batch_pool (srv_registry srv') = Some new_pool"
    by auto
  have "batch_pool (srv_registry (snd (snd (Server_set_batch_concurrency 8 stopped_server)))) =
      Some \<lparr>num_threads = 8\<rparr>"
    by (simp add: Server_set_batch_concurrency_def set_batch_concurrency_def is_running_def
        stopped_server_def Let_def)
  with res pool have "new_pool = \<lparr>num_threads = 8\<rparr>"
    by simp
  with r s running res ops pool show ?thesis by simp
qed

section \<open>The size of the batch pool\<close>

lemma ucast_64_32_neq_0:
  fixes threads :: "64 word"
  assumes "threads < 2 ^ 32" and "threads \<noteq> 0"
  shows "(ucast threads :: 32 word) \<noteq> 0"
proof
  assume "(ucast threads :: 32 word) = 0"
  then have "unat (ucast threads :: 32 word) = 0" by simp
  then have "take_bit 32 (unat threads) = 0" by (simp add: unsigned_ucast_eq)
  moreover have "unat threads < 2 ^ 32"
    using assms(1) by (simp add: word_less_nat_alt)
  ultimately have "unat threads = 0" by (simp add: take_bit_nat_eq_self)
  with assms(2) show False by (simp add: unat_eq_zero)
qed

text \<open>A resize to fewer than \<open>2\<^sup>3\<^sup>2\<close> threads, 0 included, leaves a pool with a thread.\<close>

lemma set_batch_concurrency_small:
  fixes threads :: "64 word"
  assumes "threads < 2 ^ 32"
  shows "\<exists>pool. batch_pool (snd (set_batch_concurrency threads reg)) = Some pool \<and>
           num_threads pool \<noteq> 0"
  using ucast_64_32_neq_0 [OF assms]
  by (simp add: set_batch_concurrency_def Let_def)

text \<open>
  Claim C9 fails on the code. The guard of \<open>set_batch_concurrency\<close> replaces only the
  argument 0; the count is stored as a 64-bit \<^verbatim>\<open>std::size_t\<close> and cast to the 32-bit
  \<^verbatim>\<open>unsigned\<close> that the pool's constructor takes. For every argument that is a non-zero
  multiple of \<open>2\<^sup>3\<^sup>2\<close> the cast yields 0, and the registry is left with a pool of no
  thread.
\<close>

theorem set_batch_concurrency_truncates:
  fixes threads :: "64 word"
  assumes "threads \<noteq> 0" and "(ucast threads :: 32 word) = 0"
  shows "batch_pool (snd (set_batch_concurrency threads reg)) = Some \<lparr>num_threads = 0\<rparr> \<and>
         batch_thread_count (snd (set_batch_concurrency threads reg)) = threads"
  using assms by (simp add: set_batch_concurrency_def Let_def)

text \<open>The theorem at \<open>2\<^sup>3\<^sup>2\<close>, on a new registry of a machine with 4 hardware threads.\<close>

theorem set_batch_concurrency_truncates_witness:
  "(4294967296 :: 64 word) \<noteq> 0 \<and>
   batch_pool (MethodRegistry_new 4) = Some \<lparr>num_threads = 4\<rparr> \<and>
   batch_pool (snd (set_batch_concurrency 4294967296 (MethodRegistry_new 4))) =
     Some \<lparr>num_threads = 0\<rparr>"
  using set_batch_concurrency_truncates [of 4294967296 "MethodRegistry_new 4"]
  by (simp add: MethodRegistry_new_pool)

section \<open>Notifications over HTTP\<close>

lemma batch_task_notification: "\<not> req_has_id request \<Longrightarrow> batch_task reg idx request = []"
  by (simp add: batch_task_def split: sum.splits)

lemma concat_tasks_notifications:
  "(\<And>idx. idx \<in> set completion \<Longrightarrow> \<not> req_has_id (requests ! idx)) \<Longrightarrow>
   concat (map (\<lambda>idx. batch_task reg idx (requests ! idx)) completion) = []"
  by (induction completion) (simp_all add: batch_task_notification)

lemma invoke_batch_notifications:
  assumes "list_all (\<lambda>r. \<not> req_has_id r) requests"
      and "set completion \<subseteq> {..<length requests}"
  shows "fst (invoke_batch reg completion requests) = []"
proof -
  have "\<And>idx. idx \<in> set completion \<Longrightarrow> \<not> req_has_id (requests ! idx)"
    using assms by (auto simp: list_all_length)
  then have none:
    "concat (map (\<lambda>idx. batch_task (snd (get_batch_pool reg)) idx (requests ! idx))
       completion) = []"
    by (rule concat_tasks_notifications)
  show ?thesis
    by (simp add: invoke_batch_def split_beta none)
qed

lemma parse_request_single:
  assumes "parse s = Inr jv" and "\<not> is_array jv" and "parse_request parse s = Inr requests"
  shows "length requests = 1"
  using assms by (auto simp: parse_request_def is_batch_request_def split: sum.splits)

lemma doc_notification_request:
  "Request_from_json doc_notification = Inr (Request2 ''log'' (JArray [JString ''hi'']))"
  by (simp add: doc_notification_def Request_from_json_def contains_def at_def c_str_def)

text \<open>
  Claim C2, as amended. Take an HTTP POST whose Content-Type contains
  \<^verbatim>\<open>application/json\<close> and whose body parses to requests that are all notifications. When
  the body is a single notification (its document is not an array), the session writes
  status 204 and an empty body. When the body is a batch (an array), the session writes
  status 200 and the serialisation of the empty array.
\<close>

theorem notification_response:
  assumes "hreq_verb req = verb_post"
      and "has_substring ''application/json'' (hreq_content_type req)"
      and "parse (hreq_body req) = Inr jv"
      and "parse_request parse (hreq_body req) = Inr requests"
      and "list_all (\<lambda>r. \<not> req_has_id r) requests"
      and "distinct completion" and "set completion = {..<length requests}"
  shows "hres_status (ss_response (process_request parse serialize completion registry req)) =
           (if is_array jv then 200 else 204) \<and>
         hres_body (ss_response (process_request parse serialize completion registry req)) =
           (if is_array jv then serialize (JArray []) else [])"
proof -
  have none: "fst (invoke_batch registry completion requests) = []"
    using assms(5,7) by (simp add: invoke_batch_notifications)
  have one: "\<not> is_array jv \<Longrightarrow> \<not> 1 < length requests"
    using parse_request_single [OF assms(3) _ assms(4)] by simp
  show ?thesis
    using assms(1-4) none one
    by (simp add: process_request_def Let_def split_beta is_batch_request_def
        serialize_batch_response_def)
qed

text \<open>The theorem at the POST of a single notification of \<^verbatim>\<open>log\<close>.\<close>

theorem notification_response_witness:
  \<open>hres_status (ss_response (process_request example_parse example_serialize [0]
      example_registry (post_json ''{"jsonrpc":"2.0","method":"log","params":["hi"]}''))) = 204 \<and>
   hres_body (ss_response (process_request example_parse example_serialize [0]
      example_registry (post_json ''{"jsonrpc":"2.0","method":"log","params":["hi"]}''))) = []\<close>
proof -
  let ?req = \<open>post_json ''{"jsonrpc":"2.0","method":"log","params":["hi"]}''\<close>
  have v: "hreq_verb ?req = verb_post"
    and c: "has_substring ''application/json'' (hreq_content_type ?req)"
    by (simp_all add: post_json_def)
  have p: "example_parse (hreq_body ?req) = Inr doc_notification"
    by (simp add: post_json_def example_parse_def parse_table_def)
  have r: "parse_request example_parse (hreq_body ?req) =
      Inr [Request2 ''log'' (JArray [JString ''hi''])]"
    by (simp add: parse_request_def p is_batch_request_def doc_notification_request)
       (simp add: doc_notification_def)
  have n: "list_all (\<lambda>r. \<not> req_has_id r) [Request2 ''log'' (JArray [JString ''hi''])]"
    by (simp add: Request2_def)
  have d: "distinct [0 :: nat]"
    by simp
  have s: "set [0 :: nat] = {..<length [Request2 ''log'' (JArray [JString ''hi''])]}"
    by auto
  from notification_response [OF v c p r n d s, of example_serialize example_registry]
  show ?thesis
    by (simp add: doc_notification_def)
qed

text \<open>
  The claim as stated promises status 204 and an empty body for every POST of
  notifications. A batch of two notifications is answered with status 200 and the body
  \<^verbatim>\<open>[]\<close>; and a notification posted as \<^verbatim>\<open>text/plain\<close> is answered with status 415.
\<close>

theorem notification_batch_gets_200:
  \<open>parse_request example_parse
      ''[{"jsonrpc":"2.0","method":"log","params":["hi"]},{"jsonrpc":"2.0","method":"log","params":["hi"]}]'' =
     Inr [Request2 ''log'' (JArray [JString ''hi'']), Request2 ''log'' (JArray [JString ''hi''])] \<and>
   hres_status (ss_response (process_request example_parse example_serialize [1, 0]
      example_registry (post_json
        ''[{"jsonrpc":"2.0","method":"log","params":["hi"]},{"jsonrpc":"2.0","method":"log","params":["hi"]}]''))) = 200 \<and>
   hres_body (ss_response (process_request example_parse example_serialize [1, 0]
      example_registry (post_json
        ''[{"jsonrpc":"2.0","method":"log","params":["hi"]},{"jsonrpc":"2.0","method":"log","params":["hi"]}]''))) = ''[]'' \<and>
   hres_status (ss_response (process_request example_parse example_serialize [0]
      example_registry (post_plain ''{"jsonrpc":"2.0","method":"log","params":["hi"]}''))) = 415\<close>
proof -
  let ?body = \<open>''[{"jsonrpc":"2.0","method":"log","params":["hi"]},{"jsonrpc":"2.0","method":"log","params":["hi"]}]''\<close>
  have p: "example_parse ?body = Inr doc_notification_batch"
    by (simp add: example_parse_def parse_table_def)
  have r: "parse_request example_parse ?body =
      Inr [Request2 ''log'' (JArray [JString ''hi'']), Request2 ''log'' (JArray [JString ''hi''])]"
    by (simp add: parse_request_def p is_batch_request_def doc_notification_batch_def
        doc_notification_request)
  have t: "batch_task reg idx (Request2 ''log'' (JArray [JString ''hi''])) = []" for reg idx
    by (simp add: batch_task_notification Request2_def)
  have s: "example_serialize (JArray []) = ''[]''"
    by (simp add: example_serialize_def serialize_table_def)
  have plain: \<open>hres_status (ss_response (process_request example_parse example_serialize [0]
      example_registry (post_plain ''{"jsonrpc":"2.0","method":"log","params":["hi"]}''))) = 415\<close>
    by (simp add: process_request_def post_plain_def)
  have batch: "hres_status (ss_response (process_request example_parse example_serialize [1, 0]
        example_registry (post_json ?body))) = 200 \<and>
      hres_body (ss_response (process_request example_parse example_serialize [1, 0]
        example_registry (post_json ?body))) = ''[]''"
    by (simp add: r process_request_def post_json_def Let_def invoke_batch_def split_beta t
        serialize_batch_response_def s)
  from r batch plain show ?thesis
    by (intro conjI) simp_all
qed

section \<open>A batch with an invalid element\<close>

lemma requests_from_json_fails:
  "elem \<in> set arr \<Longrightarrow> isl (Request_from_json elem) \<Longrightarrow> isl (requests_from_json arr)"
  by (induction arr) (auto split: sum.splits)

text \<open>
  Claim C10. When any element of a batch fails envelope validation, \<open>parse_request\<close>
  fails with one InvalidRequest error; the session answers the POST with status 200 and
  the serialisation of one error response that carries this error and the id null, logs
  the failure, and hands no request to the registry: none of the batch's procedures is
  executed, whether its element comes before or after the invalid one.
\<close>

theorem batch_rejected_as_a_whole:
  assumes "hreq_verb req = verb_post"
      and "has_substring ''application/json'' (hreq_content_type req)"
      and "parse (hreq_body req) = Inr (JArray arr)"
      and "elem \<in> set arr" and "isl (Request_from_json elem)"
  shows "\<exists>e. parse_request parse (hreq_body req) = Inl e \<and> err_code e = InvalidRequest \<and>
           process_request parse serialize completion registry req =
             \<lparr>ss_response =
                \<lparr>hres_status = 200, hres_content_type = ''application/json'',
                 hres_body = serialize (JObject (Response_to_json (Response_error e JNull))),
                 hres_keep_alive = True\<rparr>,
              ss_logs = [msg_parse_request_failed @ format_what e],
              ss_dispatched = [], ss_registry = registry\<rparr> \<and>
           map_of (Response_to_json (Response_error e JNull)) ''id'' = Some JNull"
proof -
  from assms(4,5) obtain e where e: "requests_from_json arr = Inl e"
    using requests_from_json_fails [of elem arr] by (cases "requests_from_json arr") auto
  from assms(4) have "arr \<noteq> []" by auto
  with e assms(3) have p: "parse_request parse (hreq_body req) = Inl e"
    by (simp add: parse_request_def is_batch_request_def)
  have c: "err_code e = InvalidRequest"
    using e by (rule requests_from_json_code)
  have i: "map_of (Response_to_json (Response_error e JNull)) ''id'' = Some JNull"
    by (simp add: Response_to_json_def Response_error_def Let_def update_conv')
  from assms(1,2) p c i show ?thesis
    by (simp add: process_request_def serialize_response_def)
qed

text \<open>
  The theorem at a batch of three whose second element lacks the version: the valid call
  of \<^verbatim>\<open>add\<close> in front of it and the valid notification behind it are not dispatched.
\<close>

theorem batch_rejected_as_a_whole_witness:
  \<open>process_request example_parse example_serialize [2, 0, 1] example_registry
     (post_json ''[{"jsonrpc":"2.0","method":"add","params":[5,5],"id":1},{"method":"log"},{"jsonrpc":"2.0","method":"log","params":["hi"]}]'') =
     \<lparr>ss_response =
        \<lparr>hres_status = 200, hres_content_type = ''application/json'',
         hres_body = example_serialize (JObject (Response_to_json
           (Response_error (Error2 InvalidRequest msg_bad_version) JNull))),
         hres_keep_alive = True\<rparr>,
      ss_logs = [msg_parse_request_failed @ format_what (Error2 InvalidRequest msg_bad_version)],
      ss_dispatched = [], ss_registry = example_registry\<rparr>\<close>
proof -
  let ?req = \<open>post_json ''[{"jsonrpc":"2.0","method":"add","params":[5,5],"id":1},{"method":"log"},{"jsonrpc":"2.0","method":"log","params":["hi"]}]''\<close>
  let ?arr = "[JObject [(''jsonrpc'', JString ''2.0''), (''method'', JString ''add''),
        (''params'', JArray [JInt64 5, JInt64 5]), (''id'', JInt64 1)],
      JObject [(''method'', JString ''log'')],
      doc_notification]"
  have v: "hreq_verb ?req = verb_post"
    and c: "has_substring ''application/json'' (hreq_content_type ?req)"
    by (simp_all add: post_json_def)
  have p: "example_parse (hreq_body ?req) = Inr (JArray ?arr)"
    by (simp add: post_json_def example_parse_def parse_table_def doc_mixed_batch_def)
  have m: "JObject [(''method'', JString ''log'')] \<in> set ?arr"
    by simp
  have f: "isl (Request_from_json (JObject [(''method'', JString ''log'')]))"
    by (simp add: Request_from_json_def contains_def)
  have r: "parse_request example_parse (hreq_body ?req) =
      Inl (Error2 InvalidRequest msg_bad_version)"
    by (simp add: parse_request_def p is_batch_request_def Request_from_json_def contains_def
        at_def c_str_def is_number_def Request3_def)
  from batch_rejected_as_a_whole [where parse = example_parse and serialize = example_serialize
      and completion = "[2, 0, 1]" and registry = example_registry, OF v c p m f]
    r show ?thesis
    by auto
qed

section \<open>Envelope round trips\<close>

lemma ucast_scast_32:
  fixes c :: "32 word"
  shows "(ucast (scast c :: 64 word) :: 32 word) = c"
proof (rule bit_word_eqI)
  fix n
  assume "n < LENGTH(32)"
  then have "n < 31 \<or> n = 31" by auto
  then show "bit (ucast (scast c :: 64 word) :: 32 word) n \<longleftrightarrow> bit c n"
    by (auto simp: bit_unsigned_iff bit_signed_iff min_def)
qed

lemma c_str_id: "CHR 0x00 \<notin> set s \<Longrightarrow> c_str s = s"
  by (auto simp: c_str_def takeWhile_eq_all_conv)

text \<open>
  What the two \<open>from_json\<close> functions read back from what the \<open>to_json\<close> functions
  wrote. A request comes back with its method cut in front of the first NUL byte; a
  success response comes back as it was; an error response comes back with its message
  cut the same way when it has no data, and with an empty message when it has.
\<close>

lemma Request_from_json_to_json:
  assumes "is_null (req_params r) \<or> is_array (req_params r) \<or> is_object (req_params r)"
      and "if req_has_id r
           then is_null (req_id r) \<or> is_string (req_id r) \<or> is_number (req_id r)
           else req_id r = JNull"
  shows "Request_from_json (JObject (Request_to_json r)) =
           Inr (r\<lparr>req_method := c_str (req_method r)\<rparr>)"
  using assms
  by (cases "req_params r")
     (auto simp: Request_from_json_def Request_to_json_def contains_def at_def Let_def
       Request3_def Request2_def)

lemma Response_from_json_result:
  "Response_from_json (JObject (Response_to_json (Response_result r i))) =
     Inr (Response_result r i)"
  by (simp add: Response_from_json_def Response_to_json_def Response_result_def
      contains_def at_def Let_def)

lemma Response_from_json_error:
  "Response_from_json (JObject (Response_to_json (Response_error e i))) =
     Inr (Response_error
       (if is_null (err_data e) then Error2 (err_code e) (c_str (err_message e))
        else Error3 (err_code e) (moved_from (c_str (err_message e))) (err_data e)) i)"
  by (simp add: Response_from_json_def Response_to_json_def Error_to_json_def Response_error_def
      contains_def at_def Let_def ucast_scast_32)

text \<open>
  The round trip of a valid request through a JSON library that reads back the document
  it wrote holds when the method name has no NUL byte.
\<close>

lemma parse_request_serialize_request:
  assumes "parse (serialize (JObject (Request_to_json r))) = Inr (JObject (Request_to_json r))"
      and "CHR 0x00 \<notin> set (req_method r)"
      and "is_null (req_params r) \<or> is_array (req_params r) \<or> is_object (req_params r)"
      and "if req_has_id r
           then is_null (req_id r) \<or> is_string (req_id r) \<or> is_number (req_id r)
           else req_id r = JNull"
  shows "parse_request parse (serialize_request serialize r) = Inr [r]"
  using assms(1,2) Request_from_json_to_json [OF assms(3,4)]
  by (simp add: parse_request_def serialize_request_def is_batch_request_def c_str_id)

lemma parse_response_serialize_response_result:
  assumes "parse (serialize (JObject (Response_to_json (Response_result r i)))) =
             Inr (JObject (Response_to_json (Response_result r i)))"
  shows "parse_response parse (serialize_response serialize (Response_result r i)) =
           Inr (Response_result r i)"
  using assms
  by (simp add: parse_response_def serialize_response_def Response_from_json_result)

text \<open>
  Claim C5 fails on the code. Even through a JSON library that reads back exactly the
  document it wrote, an error response that carries data does not come back as it was:
  \<open>Response_from_json\<close> builds its error from a string it has already moved from, and
  the message is lost.
\<close>

theorem parse_response_loses_message:
  assumes "parse (serialize (JObject (Response_to_json (Response_error e i)))) =
             Inr (JObject (Response_to_json (Response_error e i)))"
      and "\<not> is_null (err_data e)"
  shows "parse_response parse (serialize_response serialize (Response_error e i)) =
           Inr (Response_error (Error3 (err_code e) [] (err_data e)) i)"
  using assms
  by (simp add: parse_response_def serialize_response_def Response_from_json_error
      moved_from_def Error3_def)

text \<open>
  The theorem at the response to request 1 that carries the server error -32000 with the
  message \<^verbatim>\<open>boom\<close> and the data 7.
\<close>

theorem parse_response_loses_message_witness:
  "parse_response example_parse (serialize_response example_serialize
      (Response_error (Error3 ServerError ''boom'' (JInt64 7)) (JInt64 1))) =
   Inr (Response_error (Error3 ServerError [] (JInt64 7)) (JInt64 1))"
proof -
  let ?e = "Error3 ServerError ''boom'' (JInt64 7)"
  have d: "JObject (Response_to_json (Response_error ?e (JInt64 1))) = doc_error_response"
    by (simp add: Response_to_json_def Response_error_def Error_to_json_def Error3_def
        ServerError_def doc_error_response_def)
  have rt: "example_parse (example_serialize
        (JObject (Response_to_json (Response_error ?e (JInt64 1))))) =
      Inr (JObject (Response_to_json (Response_error ?e (JInt64 1))))"
    unfolding d
    by (simp add: example_serialize_def serialize_table_def example_parse_def parse_table_def
        doc_error_response_def)
  have n: "\<not> is_null (err_data ?e)"
    by (simp add: Error3_def)
  from parse_response_loses_message [where parse = example_parse
      and serialize = example_serialize, OF rt n]
  show ?thesis
    by (simp add: Error3_def)
qed

end
